theory Spec2Isabelle
  imports Complex_Main
begin

text \<open>
  The indicator pipeline of the o2 MCP server: the bar decoder, the lookback resolver, the
  indicator calculator, the derived fields, the regime classifier (all of the module
  \<open>lib/utils/indicators\<close>) and the tool function \<open>o2_indicators\<close> that drives them. Each
  function of the source is a definition of the same name; a function that can throw returns a
  sum whose left side is the message, and what the tool function reads from outside (the
  provider, the two libraries, the clock) is a parameter.
\<close>

section \<open>JavaScript numbers\<close>

text \<open>
  A JavaScript number is an IEEE 754 binary64 value: a finite double (the real it denotes, with
  \<open>Num 0\<close> for \<open>+0\<close>), \<open>-0\<close>, the two infinities, or \<open>NaN\<close>. Every arithmetic
  operation rounds its exact result to the nearest double, ties to the even significand. The
  constants written in the source (\<open>3\<close>, \<open>100\<close>, \<open>1.5\<close>, ...) are doubles.
\<close>

datatype jsnum = Num real | NegZero | PInf | NInf | NaN

text \<open>\<open>2 ^ e\<close> for an integer \<open>e\<close>.\<close>

definition pow2 :: "int \<Rightarrow> real" where
  "pow2 e = (if 0 \<le> e then 2 ^ nat e else 1 / 2 ^ nat (- e))"

text \<open>
  The binary exponent of a positive real, kept within the exponents of binary64: for
  \<open>x \<ge> 1\<close> the least \<open>k\<close> with \<open>x < 2 ^ (k + 1)\<close>, at most 1023; for \<open>x < 1\<close>
  the least \<open>k\<close> with \<open>2 ^ - k \<le> x\<close>, at most 1022 (below that the value is subnormal).
\<close>

function expUp :: "real \<Rightarrow> nat \<Rightarrow> nat" where
  "expUp x k = (if 1023 \<le> k \<or> x < 2 ^ Suc k then k else expUp x (Suc k))"
  by pat_completeness auto
termination
  by (relation "measure (\<lambda>(x, k). 1023 - k)") auto

function expDown :: "real \<Rightarrow> nat \<Rightarrow> nat" where
  "expDown x k = (if 1022 \<le> k \<or> 1 \<le> x * 2 ^ k then k else expDown x (Suc k))"
  by pat_completeness auto
termination
  by (relation "measure (\<lambda>(x, k). 1022 - k)") auto

declare expUp.simps [simp del]

declare expDown.simps [simp del]

definition exponent :: "real \<Rightarrow> int" where
  "exponent x = (if 1 \<le> x then int (expUp x 0) else - int (expDown x 1))"

text \<open>The nearest integer, a tie going to the even one.\<close>

definition roundHalfEven :: "real \<Rightarrow> int" where
  "roundHalfEven q =
     (let f = \<lfloor>q\<rfloor>; r = q - of_int f
      in if r < 1 / 2 then f
         else if 1 / 2 < r then f + 1
         else if even f then f else f + 1)"

text \<open>
  The double nearest to a real given by its sign and its magnitude \<open>x \<ge> 0\<close>: the magnitude
  is rounded to a multiple of the unit in the last place (\<open>2 ^ (e - 52)\<close>, 53 significant bits;
  \<open>2 ^ - 1074\<close> for a subnormal); what rounds to \<open>2 ^ 1024\<close> or more is an infinity, what
  rounds to nothing is a zero of that sign.
\<close>

definition roundMagnitude :: "bool \<Rightarrow> real \<Rightarrow> jsnum" where
  "roundMagnitude neg x =
     (if x = 0 then (if neg then NegZero else Num 0)
      else
        (let ulp = pow2 (exponent x - 52);
             n = roundHalfEven (x / ulp);
             y = of_int n * ulp
         in if n = 0 then (if neg then NegZero else Num 0)
            else if 2 ^ 1024 \<le> y then (if neg then NInf else PInf)
            else Num (if neg then - y else y)))"

definition rnd :: "real \<Rightarrow> jsnum" where
  "rnd x = roundMagnitude (x < 0) \<bar>x\<bar>"

text \<open>An integer (a timestamp in JSON, a reading of the clock) as a number.\<close>

definition numOfInt :: "int \<Rightarrow> jsnum" where
  "numOfInt i = rnd (of_int i)"

text \<open>The sign bit, the magnitude of a finite number, and the classes of numbers.\<close>

fun negative :: "jsnum \<Rightarrow> bool" where
  "negative (Num a) = (a < 0)"
| "negative NegZero = True"
| "negative NInf = True"
| "negative _ = False"

fun magnitude :: "jsnum \<Rightarrow> real" where
  "magnitude (Num a) = \<bar>a\<bar>"
| "magnitude _ = 0"

fun realOf :: "jsnum \<Rightarrow> real" where
  "realOf (Num a) = a"
| "realOf _ = 0"

fun infinite_num :: "jsnum \<Rightarrow> bool" where
  "infinite_num PInf = True"
| "infinite_num NInf = True"
| "infinite_num _ = False"

fun isZero :: "jsnum \<Rightarrow> bool" where
  "isZero (Num a) = (a = 0)"
| "isZero NegZero = True"
| "isZero _ = False"

definition signedInf :: "bool \<Rightarrow> jsnum" where
  "signedInf neg = (if neg then NInf else PInf)"

definition signedZero :: "bool \<Rightarrow> jsnum" where
  "signedZero neg = (if neg then NegZero else Num 0)"

fun jneg :: "jsnum \<Rightarrow> jsnum" where
  "jneg (Num a) = (if a = 0 then NegZero else Num (- a))"
| "jneg NegZero = Num 0"
| "jneg PInf = NInf"
| "jneg NInf = PInf"
| "jneg NaN = NaN"

definition jadd :: "jsnum \<Rightarrow> jsnum \<Rightarrow> jsnum" where
  "jadd x y =
     (if x = NaN \<or> y = NaN then NaN
      else if infinite_num x then (if infinite_num y \<and> x \<noteq> y then NaN else x)
      else if infinite_num y then y
      else if isZero x \<and> isZero y then (if x = NegZero \<and> y = NegZero then NegZero else Num 0)
      else if realOf x + realOf y = 0 then Num 0
      else rnd (realOf x + realOf y))"

definition jsub :: "jsnum \<Rightarrow> jsnum \<Rightarrow> jsnum" where
  "jsub x y = jadd x (jneg y)"

definition jmul :: "jsnum \<Rightarrow> jsnum \<Rightarrow> jsnum" where
  "jmul x y =
     (if x = NaN \<or> y = NaN then NaN
      else if infinite_num x \<or> infinite_num y
        then (if isZero x \<or> isZero y then NaN else signedInf (negative x \<noteq> negative y))
      else roundMagnitude (negative x \<noteq> negative y) (magnitude x * magnitude y))"

definition jdiv :: "jsnum \<Rightarrow> jsnum \<Rightarrow> jsnum" where
  "jdiv x y =
     (if x = NaN \<or> y = NaN then NaN
      else if infinite_num x
        then (if infinite_num y then NaN else signedInf (negative x \<noteq> negative y))
      else if infinite_num y then signedZero (negative x \<noteq> negative y)
      else if isZero y
        then (if isZero x then NaN else signedInf (negative x \<noteq> negative y))
      else roundMagnitude (negative x \<noteq> negative y) (magnitude x / magnitude y))"

text \<open>\<open>x < y\<close>: false when either side is \<open>NaN\<close>; the two zeros are equal.\<close>

definition jlt :: "jsnum \<Rightarrow> jsnum \<Rightarrow> bool" where
  "jlt x y =
     (x \<noteq> NaN \<and> y \<noteq> NaN \<and> x \<noteq> PInf \<and> y \<noteq> NInf
      \<and> (x = NInf \<or> y = PInf \<or> realOf x < realOf y))"

definition jgt :: "jsnum \<Rightarrow> jsnum \<Rightarrow> bool" where
  "jgt x y = jlt y x"

text \<open>\<open>x >= y\<close>\<close>

definition jge :: "jsnum \<Rightarrow> jsnum \<Rightarrow> bool" where
  "jge x y = (x \<noteq> NaN \<and> y \<noteq> NaN \<and> \<not> jlt x y)"

text \<open>\<open>Math.floor\<close>\<close>

fun jfloor :: "jsnum \<Rightarrow> jsnum" where
  "jfloor (Num a) = Num (of_int \<lfloor>a\<rfloor>)"
| "jfloor x = x"

text \<open>
  \<open>Math.max\<close> of two numbers, and of a list: \<open>-Infinity\<close> for no argument, \<open>NaN\<close> if any
  argument is, \<open>+0\<close> above \<open>-0\<close>.
\<close>

definition jmax :: "jsnum \<Rightarrow> jsnum \<Rightarrow> jsnum" where
  "jmax x y =
     (if x = NaN \<or> y = NaN then NaN
      else if jlt x y then y
      else if jlt y x then x
      else if x = NegZero then y else x)"

definition mathMax :: "jsnum list \<Rightarrow> jsnum" where
  "mathMax xs = foldl jmax NInf xs"

section \<open>JavaScript values\<close>

text \<open>
  The values an \<open>any\<close>-typed field of the source holds: \<open>undefined\<close>, \<open>null\<close>, a number,
  a string, or an object literal (its keys in the order written).
\<close>

datatype jsval =
    Undefined
  | Null
  | Number jsnum
  | String string
  | Object "(string \<times> jsval) list"

text \<open>\<open>ToNumber\<close>, applied by the arithmetic and comparison operators.\<close>

fun toNumber :: "jsval \<Rightarrow> jsnum" where
  "toNumber (Number n) = n"
| "toNumber Null = Num 0"
| "toNumber _ = NaN"

text \<open>A number is falsy when it is a zero or \<open>NaN\<close>.\<close>

definition falsyNumber :: "jsnum \<Rightarrow> bool" where
  "falsyNumber n = (isZero n \<or> n = NaN)"

text \<open>Truthiness, as tested by \<open>&&\<close>, \<open>||\<close> and \<open>?:\<close>.\<close>

fun truthy :: "jsval \<Rightarrow> bool" where
  "truthy Undefined = False"
| "truthy Null = False"
| "truthy (Number n) = (\<not> falsyNumber n)"
| "truthy (String s) = (s \<noteq> [])"
| "truthy (Object _) = True"

text \<open>\<open>typeof v === 'number'\<close>.\<close>

fun isNumber :: "jsval \<Rightarrow> bool" where
  "isNumber (Number _) = True"
| "isNumber _ = False"

text \<open>
  Property read \<open>v.k\<close> on a value that is neither \<open>undefined\<close> nor \<open>null\<close> (every such
  read of the source is guarded by a truthiness test): a missing key reads \<open>undefined\<close>.
\<close>

fun field :: "jsval \<Rightarrow> string \<Rightarrow> jsval" where
  "field (Object kvs) k = (case map_of kvs k of Some v \<Rightarrow> v | None \<Rightarrow> Undefined)"
| "field _ k = Undefined"

section \<open>Strings\<close>

text \<open>
  A string is a list of code units below 256 (Latin-1); other code units are outside the model.
  \<open>toLowerCase\<close> maps \<open>A\<close>--\<open>Z\<close> and the Latin-1 capitals (192--222 except the
  multiplication sign 215) to the letter 32 places up. Bit 5 is clear in every such code, so
  adding 32 is setting that bit.
\<close>

definition toLowerCase_char :: "char \<Rightarrow> char" where
  "toLowerCase_char c =
     (let n = (of_char c :: nat)
      in if (65 \<le> n \<and> n \<le> 90) \<or> (192 \<le> n \<and> n \<le> 222 \<and> n \<noteq> 215)
         then (case c of Char b0 b1 b2 b3 b4 b5 b6 b7 \<Rightarrow> Char b0 b1 b2 b3 b4 True b6 b7)
         else c)"

definition toLowerCase :: "string \<Rightarrow> string" where
  "toLowerCase s = map toLowerCase_char s"

text \<open>\<open>s.replace(/-/g, "_")\<close>\<close>

definition replaceDashes :: "string \<Rightarrow> string" where
  "replaceDashes s = map (\<lambda>c. if c = CHR ''-'' then CHR ''_'' else c) s"

definition startsWith :: "string \<Rightarrow> string \<Rightarrow> bool" where
  "startsWith s p = (take (length p) s = p)"

text \<open>\<open>s.split('_')\<close>: the segments between underscores (always at least one).\<close>

fun split_us :: "string \<Rightarrow> string list" where
  "split_us [] = [] # []"
| "split_us (c # cs) =
     (if c = CHR ''_'' then [] # split_us cs
      else (case split_us cs of seg # segs \<Rightarrow> (c # seg) # segs | [] \<Rightarrow> [c] # []))"

text \<open>
  \<open>parseInt(s)\<close> with no radix: leading white space is skipped, then an optional sign, then
  \<open>0x\<close> selects base 16, then the longest run of digits is read. No digit gives \<open>NaN\<close>;
  otherwise the result is the double nearest to the integer read, with the sign read (so
  \<open>-0\<close> for \<open>"-0"\<close>, and an infinity for an integer beyond the range of doubles).
  Beyond 20 significant decimal digits the language lets an implementation read the further
  digits as zeros; the nearest double is taken here.
\<close>

definition isWhiteSpace :: "char \<Rightarrow> bool" where
  "isWhiteSpace c = (of_char c \<in> {9, 10, 11, 12, 13, 32, 160 :: nat})"

definition digitValue :: "char \<Rightarrow> nat option" where
  "digitValue c =
     (let n = (of_char c :: nat)
      in if 48 \<le> n \<and> n \<le> 57 then Some (n - 48)
         else if 97 \<le> n \<and> n \<le> 102 then Some (n - 87)
         else if 65 \<le> n \<and> n \<le> 70 then Some (n - 55)
         else None)"

definition isRadixDigit :: "nat \<Rightarrow> char \<Rightarrow> bool" where
  "isRadixDigit radix c = (case digitValue c of Some d \<Rightarrow> d < radix | None \<Rightarrow> False)"

definition digitsToNat :: "nat \<Rightarrow> string \<Rightarrow> nat" where
  "digitsToNat radix ds = foldl (\<lambda>acc c. acc * radix + (case digitValue c of Some d \<Rightarrow> d | None \<Rightarrow> 0)) 0 ds"

definition parseDigits :: "nat \<Rightarrow> string \<Rightarrow> nat option" where
  "parseDigits radix s =
     (let ds = takeWhile (isRadixDigit radix) s
      in if ds = [] then None else Some (digitsToNat radix ds))"

definition parseUnsigned :: "string \<Rightarrow> nat option" where
  "parseUnsigned s =
     (if startsWith s ''0x'' \<or> startsWith s ''0X'' then parseDigits 16 (drop 2 s)
      else parseDigits 10 s)"

definition signedNumber :: "bool \<Rightarrow> nat option \<Rightarrow> jsnum" where
  "signedNumber neg r = (case r of None \<Rightarrow> NaN | Some n \<Rightarrow> roundMagnitude neg (real n))"

definition parseInt :: "string \<Rightarrow> jsnum" where
  "parseInt str =
     (let s = dropWhile isWhiteSpace str
      in case s of
           [] \<Rightarrow> NaN
         | c # rest \<Rightarrow>
             if c = CHR ''-'' then signedNumber True (parseUnsigned rest)
             else if c = CHR ''+'' then signedNumber False (parseUnsigned rest)
             else signedNumber False (parseUnsigned s))"

text \<open>
  \<open>parseInt(normalized.split('_')[1]) || dflt\<close>: \<open>NaN\<close> and the zeros are falsy. Without
  a second segment the argument is \<open>undefined\<close>, which \<open>parseInt\<close> reads as the string
  \<open>undefined\<close>: \<open>NaN\<close>.
\<close>

definition periodOr :: "string \<Rightarrow> jsnum \<Rightarrow> jsnum" where
  "periodOr normalized dflt =
     (case split_us normalized of
        _ # seg # _ \<Rightarrow> (if falsyNumber (parseInt seg) then dflt else parseInt seg)
      | _ \<Rightarrow> dflt)"

section \<open>Lookback resolver\<close>

definition getIndicatorLookback :: "string \<Rightarrow> jsnum" where
  "getIndicatorLookback indicator =
     (let normalized = replaceDashes (toLowerCase indicator)
      in if startsWith normalized ''sma_'' then periodOr normalized (Num 20)
         else if startsWith normalized ''ema_'' then jmul (periodOr normalized (Num 12)) (Num 2)
         else if startsWith normalized ''rsi_'' then jadd (periodOr normalized (Num 14)) (Num 1)
         else if normalized = ''macd'' \<or> startsWith normalized ''macd_'' then Num 35
         else if startsWith normalized ''bbands'' then Num 20
         else if startsWith normalized ''atr_'' then Num 14
         else if startsWith normalized ''adx_'' then jmul (periodOr normalized (Num 14)) (Num 2)
         else if normalized = ''plus_di'' \<or> normalized = ''minus_di'' then Num 28
         else if normalized = ''vwap'' then Num 1
         else if startsWith normalized ''cci_'' then Num 20
         else if normalized = ''stoch'' then Num 14
         else if startsWith normalized ''mfi_'' then Num 14
         else if normalized = ''obv'' then Num 1
         else Num 50)"

section \<open>Indicator-name normalization\<close>

definition aliases :: "(string \<times> string) list" where
  "aliases =
     [(''rsi14'', ''rsi_14''),
      (''sma20'', ''sma_20''),
      (''sma50'', ''sma_50''),
      (''ema12'', ''ema_12''),
      (''ema26'', ''ema_26''),
      (''mfi14'', ''mfi_14''),
      (''cci20'', ''cci_20''),
      (''atr14'', ''atr_14''),
      (''adx14'', ''adx_14''),
      (''plusdi'', ''plus_di''),
      (''minusdi'', ''minus_di''),
      (''macd_12_26_9'', ''macd''),
      (''bbands_20_2'', ''bbands''),
      (''stoch_14_3_3'', ''stoch'')]"

text \<open>
  The table is an object literal, so the read \<open>aliases[lower]\<close> also finds what every
  object inherits from \<open>Object.prototype\<close>: \<open>constructor\<close>, \<open>__proto__\<close>,
  \<open>hasOwnProperty\<close>, \<open>isPrototypeOf\<close>, \<open>propertyIsEnumerable\<close>, \<open>toString\<close>,
  \<open>toLocaleString\<close>, \<open>valueOf\<close>, \<open>__defineGetter__\<close>, \<open>__defineSetter__\<close>,
  \<open>__lookupGetter__\<close>, \<open>__lookupSetter__\<close>. The key is lower-cased first, so only the two
  names without a capital can be hit. Each reads as a truthy value that is not a string (the
  function \<open>Object\<close>, the prototype object), and \<open>||\<close> returns that value.
\<close>

definition inheritedKeys :: "string list" where
  "inheritedKeys = [''constructor'', ''__proto__'']"

text \<open>What \<open>normalizeIndicatorName\<close> returns: a string, or the inherited property read under a key.\<close>

datatype ident = Name string | Inherited string

definition normalizeIndicatorName :: "string \<Rightarrow> ident" where
  "normalizeIndicatorName nm =
     (let lower = replaceDashes (toLowerCase nm)
      in case map_of aliases lower of
           Some a \<Rightarrow> Name a
         | None \<Rightarrow> if lower \<in> set inheritedKeys then Inherited lower else Name lower)"

section \<open>Bar decoder\<close>

text \<open>
  \<open>RawBar\<close>: the six decimal-string fields and the timestamp of the source, the string
  fields renamed with the suffix \<open>_s\<close> since \<open>TransformedBars\<close> has the same keys. The
  timestamp is the integer of milliseconds that the provider sends.
\<close>

record RawBar =
  buy_volume :: string
  close_s :: string
  high_s :: string
  low_s :: string
  open_s :: string
  sell_volume :: string
  bar_timestamp :: int

record TransformedBars =
  open_a :: "jsnum list"
  high :: "jsnum list"
  low :: "jsnum list"
  close :: "jsnum list"
  volume :: "jsnum list"
  timestamp :: "int list"

datatype PriceSource = Close | Hlc3 | Ohlc4

text \<open>
  The library \<open>decimal.js\<close> is not part of the repository: it is a parameter, over any type
  \<open>'d\<close> of decimals. \<open>newDecimal\<close> is the constructor \<open>new Decimal(v)\<close>, which throws
  on an argument it does not accept (\<open>Inl\<close> is the message); the other fields are the methods
  \<open>pow\<close>, \<open>div\<close>, \<open>add\<close>, \<open>toNumber\<close> and \<open>toString\<close>, called on decimals only.
  Which strings the constructor accepts, how the quotient is rounded and what number
  \<open>toNumber\<close> gives (it may be an infinity or \<open>NaN\<close>) are the library's.
\<close>

record 'd DecimalLib =
  newDecimal :: "jsval \<Rightarrow> string + 'd"
  dec_pow :: "'d \<Rightarrow> jsnum \<Rightarrow> 'd"
  dec_div :: "'d \<Rightarrow> 'd \<Rightarrow> 'd"
  dec_add :: "'d \<Rightarrow> 'd \<Rightarrow> 'd"
  dec_toNumber :: "'d \<Rightarrow> jsnum"
  dec_toString :: "'d \<Rightarrow> string"

text \<open>
  \<open>scaleDown(value, decimals)\<close> on the path taken with a non-zero \<open>decimals\<close>. The caller
  never passes decimals, so both are the default 9 and the \<open>parseFloat\<close> branch for
  \<open>decimals === 0\<close> is not reached. \<open>Inl\<close> is the message of the exception thrown.
\<close>

definition scaleDown :: "'d DecimalLib \<Rightarrow> string \<Rightarrow> jsnum \<Rightarrow> string + jsnum" where
  "scaleDown lib v decimals =
     (case newDecimal lib (String v) of
        Inl e \<Rightarrow> Inl e
      | Inr decimal \<Rightarrow>
          (case newDecimal lib (Number (Num 10)) of
             Inl e \<Rightarrow> Inl e
           | Inr ten \<Rightarrow>
               (let divisor = dec_pow lib ten decimals
                in Inr (dec_toNumber lib (dec_div lib decimal divisor)))))"

definition priceDecimals :: jsnum where
  "priceDecimals = Num 9"

definition volumeDecimals :: jsnum where
  "volumeDecimals = Num 9"

text \<open>\<open>new Decimal(bar.buy_volume).add(new Decimal(bar.sell_volume))\<close>\<close>

definition totalVolume :: "'d DecimalLib \<Rightarrow> RawBar \<Rightarrow> string + 'd" where
  "totalVolume lib bar =
     (case newDecimal lib (String (buy_volume bar)) of
        Inl e \<Rightarrow> Inl e
      | Inr b \<Rightarrow>
          (case newDecimal lib (String (sell_volume bar)) of
             Inl e \<Rightarrow> Inl e
           | Inr s \<Rightarrow> Inr (dec_add lib b s)))"

text \<open>One pass of the loop body of \<open>transformBarsToArrays\<close>: the six values pushed for a bar.\<close>

definition pushBar ::
  "'d DecimalLib \<Rightarrow> RawBar \<Rightarrow> string + (jsnum \<times> jsnum \<times> jsnum \<times> jsnum \<times> jsnum \<times> int)" where
  "pushBar lib bar =
     (case scaleDown lib (open_s bar) priceDecimals of Inl e \<Rightarrow> Inl e | Inr op \<Rightarrow>
     (case scaleDown lib (high_s bar) priceDecimals of Inl e \<Rightarrow> Inl e | Inr hi \<Rightarrow>
     (case scaleDown lib (low_s bar) priceDecimals of Inl e \<Rightarrow> Inl e | Inr lo \<Rightarrow>
     (case scaleDown lib (close_s bar) priceDecimals of Inl e \<Rightarrow> Inl e | Inr cl \<Rightarrow>
     (case totalVolume lib bar of Inl e \<Rightarrow> Inl e | Inr totalVol \<Rightarrow>
     (case scaleDown lib (dec_toString lib totalVol) volumeDecimals of Inl e \<Rightarrow> Inl e | Inr vol \<Rightarrow>
        Inr (op, hi, lo, cl, vol, bar_timestamp bar)))))))"

fun transformBarsToArrays :: "'d DecimalLib \<Rightarrow> RawBar list \<Rightarrow> string + TransformedBars" where
  "transformBarsToArrays lib [] =
     Inr \<lparr>open_a = [], high = [], low = [], close = [], volume = [], timestamp = []\<rparr>"
| "transformBarsToArrays lib (bar # bars) =
     (case pushBar lib bar of
        Inl e \<Rightarrow> Inl e
      | Inr (op, hi, lo, cl, vol, ts) \<Rightarrow>
          (case transformBarsToArrays lib bars of
             Inl e \<Rightarrow> Inl e
           | Inr r \<Rightarrow>
               Inr \<lparr>open_a = op # open_a r, high = hi # high r, low = lo # low r,
                    close = cl # close r, volume = vol # volume r,
                    timestamp = ts # timestamp r\<rparr>))"

text \<open>An array read \<open>xs[i]\<close>: \<open>undefined\<close> out of range.\<close>

definition elemAt :: "jsnum list \<Rightarrow> int \<Rightarrow> jsval" where
  "elemAt xs i = (if 0 \<le> i \<and> i < int (length xs) then Number (xs ! nat i) else Undefined)"

definition num_at :: "jsnum list \<Rightarrow> nat \<Rightarrow> jsnum" where
  "num_at xs i = toNumber (elemAt xs (int i))"

text \<open>
  The length of an array as a number. An array has fewer than \<open>2 ^ 32\<close> elements, so its
  length is a double.
\<close>

definition lengthOf :: "'a list \<Rightarrow> jsnum" where
  "lengthOf xs = Num (real (length xs))"

definition getPriceArray :: "TransformedBars \<Rightarrow> PriceSource \<Rightarrow> jsnum list" where
  "getPriceArray bars source =
     (case source of
        Close \<Rightarrow> close bars
      | Hlc3 \<Rightarrow>
          map (\<lambda>i. jdiv (jadd (jadd (num_at (high bars) i) (num_at (low bars) i))
                              (num_at (close bars) i)) (Num 3))
              [0..<length (high bars)]
      | Ohlc4 \<Rightarrow>
          map (\<lambda>i. jdiv (jadd (jadd (jadd (num_at (open_a bars) i) (num_at (high bars) i))
                                    (num_at (low bars) i)) (num_at (close bars) i)) (Num 4))
              [0..<length (high bars)])"

section \<open>Indicator calculator\<close>

record Meta =
  requiredBars :: jsnum
  providedBars :: jsnum
  warmupBars :: jsnum
  params :: "(string \<times> jsval) list"

text \<open>
  \<open>IndicatorResult\<close>; the key \<open>value\<close> is the field \<open>val\<close>. An absent optional key
  (\<open>prev\<close>, \<open>delta\<close>) reads \<open>undefined\<close>; absent \<open>levels\<close> and \<open>error\<close> are \<open>None\<close>.
\<close>

record IndicatorResult =
  val :: jsval
  prev :: jsval
  delta :: jsval
  levels :: "(string \<times> jsnum) list option"
  meta :: Meta
  error :: "string option"

text \<open>
  The native library \<open>talib\<close> is not part of the repository: it is a parameter. A call
  passes the argument object of \<open>talib.execute\<close>; \<open>Inr\<close> is the \<open>result\<close> object (output
  arrays by name), \<open>Inl m\<close> stands for a call that throws, or that returns no \<open>result\<close> so
  that reading it throws, \<open>m\<close> being the message the \<open>catch\<close> block sees.
\<close>

record TalibCall =
  name :: string
  startIdx :: jsnum
  endIdx :: jsnum
  arrays :: "(string \<times> jsnum list) list"
  optIn :: "(string \<times> jsnum) list"

type_synonym Talib = "TalibCall \<Rightarrow> string + (string \<times> jsnum list) list"

definition quoted :: "string \<Rightarrow> string" where
  "quoted s = [CHR 0x27] @ s @ [CHR 0x27]"

text \<open>Reading an output array that the result lacks gives \<open>undefined\<close>, whose \<open>length\<close> throws.\<close>

definition outArray :: "(string \<times> jsnum list) list \<Rightarrow> string \<Rightarrow> string + jsnum list" where
  "outArray res k =
     (case map_of res k of
        Some vs \<Rightarrow> Inr vs
      | None \<Rightarrow> Inl (''Cannot read properties of undefined (reading '' @ quoted ''length'' @ '')''))"

text \<open>\<open>xs[xs.length - 1]\<close>, \<open>xs[xs.length - 2]\<close> and their difference.\<close>

definition lastv :: "jsnum list \<Rightarrow> jsval" where
  "lastv xs = elemAt xs (int (length xs) - 1)"

definition prevv :: "jsnum list \<Rightarrow> jsval" where
  "prevv xs = elemAt xs (int (length xs) - 2)"

definition diffv :: "jsnum list \<Rightarrow> jsval" where
  "diffv xs = Number (jsub (toNumber (lastv xs)) (toNumber (prevv xs)))"

text \<open>The object returned by the single-output branches, which all build it the same way.\<close>

definition scalarResult :: "jsnum list \<Rightarrow> (string \<times> jsnum) list option \<Rightarrow> Meta \<Rightarrow> IndicatorResult" where
  "scalarResult values lv m =
     \<lparr>val = lastv values,
      prev = (if 1 < length values then prevv values else Null),
      delta = (if 1 < length values then diffv values else Null),
      levels = lv, meta = m, error = None\<rparr>"

definition scalarCall ::
  "Talib \<Rightarrow> TalibCall \<Rightarrow> (string \<times> jsnum) list option \<Rightarrow> Meta \<Rightarrow> string + IndicatorResult option" where
  "scalarCall talib call lv m =
     (case talib call of
        Inl e \<Rightarrow> Inl e
      | Inr res \<Rightarrow>
          (case outArray res ''outReal'' of
             Inl e \<Rightarrow> Inl e
           | Inr values \<Rightarrow> Inr (Some (scalarResult values lv m))))"

text \<open>\<open>bars.close.length\<close>\<close>

definition barCount :: "TransformedBars \<Rightarrow> jsnum" where
  "barCount bars = lengthOf (close bars)"

definition hlc :: "TransformedBars \<Rightarrow> (string \<times> jsnum list) list" where
  "hlc bars = [(''high'', high bars), (''low'', low bars), (''close'', close bars)]"

definition calc_sma :: "Talib \<Rightarrow> string \<Rightarrow> TransformedBars \<Rightarrow> jsnum list \<Rightarrow> string + IndicatorResult option" where
  "calc_sma talib normalized bars priceArray =
     (let period = periodOr normalized (Num 20)
      in if jlt (barCount bars) period then Inr None
         else scalarCall talib
                \<lparr>name = ''SMA'', startIdx = Num 0, endIdx = jsub (barCount bars) (Num 1),
                 arrays = [(''inReal'', priceArray)], optIn = [(''optInTimePeriod'', period)]\<rparr>
                None
                \<lparr>requiredBars = period, providedBars = barCount bars, warmupBars = jsub period (Num 1),
                 params = [(''period'', Number period)]\<rparr>)"

definition calc_ema :: "Talib \<Rightarrow> string \<Rightarrow> TransformedBars \<Rightarrow> jsnum list \<Rightarrow> string + IndicatorResult option" where
  "calc_ema talib normalized bars priceArray =
     (let period = periodOr normalized (Num 12)
      in if jlt (barCount bars) period then Inr None
         else scalarCall talib
                \<lparr>name = ''EMA'', startIdx = Num 0, endIdx = jsub (barCount bars) (Num 1),
                 arrays = [(''inReal'', priceArray)], optIn = [(''optInTimePeriod'', period)]\<rparr>
                None
                \<lparr>requiredBars = jmul period (Num 2), providedBars = barCount bars,
                 warmupBars = jfloor (jmul period (Num (3 / 2))),
                 params = [(''period'', Number period)]\<rparr>)"

definition calc_rsi :: "Talib \<Rightarrow> string \<Rightarrow> TransformedBars \<Rightarrow> jsnum list \<Rightarrow> string + IndicatorResult option" where
  "calc_rsi talib normalized bars priceArray =
     (let period = periodOr normalized (Num 14)
      in if jlt (barCount bars) (jadd period (Num 1)) then Inr None
         else scalarCall talib
                \<lparr>name = ''RSI'', startIdx = Num 0, endIdx = jsub (barCount bars) (Num 1),
                 arrays = [(''inReal'', priceArray)], optIn = [(''optInTimePeriod'', period)]\<rparr>
                (Some [(''overbought'', Num 70), (''oversold'', Num 30)])
                \<lparr>requiredBars = jadd period (Num 1), providedBars = barCount bars, warmupBars = period,
                 params = [(''period'', Number period)]\<rparr>)"

definition calc_macd :: "Talib \<Rightarrow> TransformedBars \<Rightarrow> jsnum list \<Rightarrow> string + IndicatorResult option" where
  "calc_macd talib bars priceArray =
     (if jlt (barCount bars) (Num 35) then Inr None
      else
        (case talib \<lparr>name = ''MACD'', startIdx = Num 0, endIdx = jsub (barCount bars) (Num 1),
                     arrays = [(''inReal'', priceArray)],
                     optIn = [(''optInFastPeriod'', Num 12), (''optInSlowPeriod'', Num 26),
                              (''optInSignalPeriod'', Num 9)]\<rparr> of
           Inl e \<Rightarrow> Inl e
         | Inr res \<Rightarrow>
        (case outArray res ''outMACD'' of Inl e \<Rightarrow> Inl e | Inr macdValues \<Rightarrow>
        (case outArray res ''outMACDSignal'' of Inl e \<Rightarrow> Inl e | Inr signalValues \<Rightarrow>
        (case outArray res ''outMACDHist'' of Inl e \<Rightarrow> Inl e | Inr histValues \<Rightarrow>
           Inr (Some
             \<lparr>val = Object [(''macd'', lastv macdValues), (''signal'', lastv signalValues),
                            (''histogram'', lastv histValues)],
              prev = (if 1 < length macdValues
                      then Object [(''macd'', prevv macdValues), (''signal'', prevv signalValues),
                                   (''histogram'', prevv histValues)]
                      else Null),
              delta = (if 1 < length macdValues
                       then Object [(''macd'', diffv macdValues), (''signal'', diffv signalValues),
                                    (''histogram'', diffv histValues)]
                       else Null),
              levels = None,
              meta = \<lparr>requiredBars = Num 35, providedBars = barCount bars, warmupBars = Num 33,
                      params = [(''fast'', Number (Num 12)), (''slow'', Number (Num 26)), (''signal'', Number (Num 9))]\<rparr>,
              error = None\<rparr>))))))"

definition calc_bbands :: "Talib \<Rightarrow> TransformedBars \<Rightarrow> jsnum list \<Rightarrow> string + IndicatorResult option" where
  "calc_bbands talib bars priceArray =
     (let period = Num 20; stdDev = Num 2
      in if jlt (barCount bars) period then Inr None
      else
        (case talib \<lparr>name = ''BBANDS'', startIdx = Num 0, endIdx = jsub (barCount bars) (Num 1),
                     arrays = [(''inReal'', priceArray)],
                     optIn = [(''optInTimePeriod'', period), (''optInNbDevUp'', stdDev),
                              (''optInNbDevDn'', stdDev), (''optInMAType'', Num 0)]\<rparr> of
           Inl e \<Rightarrow> Inl e
         | Inr res \<Rightarrow>
        (case outArray res ''outRealUpperBand'' of Inl e \<Rightarrow> Inl e | Inr upper \<Rightarrow>
        (case outArray res ''outRealMiddleBand'' of Inl e \<Rightarrow> Inl e | Inr middle \<Rightarrow>
        (case outArray res ''outRealLowerBand'' of Inl e \<Rightarrow> Inl e | Inr lower \<Rightarrow>
           (let currentPrice = toNumber (lastv (close bars));
                width = jsub (toNumber (lastv upper)) (toNumber (lastv lower));
                percentB = jdiv (jsub currentPrice (toNumber (lastv lower))) width;
                bandwidth = jmul (jdiv width (toNumber (lastv middle))) (Num 100)
            in Inr (Some
             \<lparr>val = Object [(''upper'', lastv upper), (''middle'', lastv middle),
                            (''lower'', lastv lower), (''percentB'', Number percentB),
                            (''bandwidth'', Number bandwidth)],
              prev = (if 1 < length upper
                      then Object [(''upper'', prevv upper), (''middle'', prevv middle),
                                   (''lower'', prevv lower)]
                      else Null),
              delta = Undefined,
              levels = None,
              meta = \<lparr>requiredBars = period, providedBars = barCount bars,
                      warmupBars = jsub period (Num 1),
                      params = [(''period'', Number period), (''stdDev'', Number stdDev)]\<rparr>,
              error = None\<rparr>)))))))"

definition calc_atr :: "Talib \<Rightarrow> string \<Rightarrow> TransformedBars \<Rightarrow> string + IndicatorResult option" where
  "calc_atr talib normalized bars =
     (let period = periodOr normalized (Num 14)
      in if jlt (barCount bars) period then Inr None
         else scalarCall talib
                \<lparr>name = ''ATR'', startIdx = Num 0, endIdx = jsub (barCount bars) (Num 1),
                 arrays = hlc bars, optIn = [(''optInTimePeriod'', period)]\<rparr>
                None
                \<lparr>requiredBars = period, providedBars = barCount bars, warmupBars = jsub period (Num 1),
                 params = [(''period'', Number period)]\<rparr>)"

definition calc_adx :: "Talib \<Rightarrow> string \<Rightarrow> TransformedBars \<Rightarrow> string + IndicatorResult option" where
  "calc_adx talib normalized bars =
     (let period = periodOr normalized (Num 14)
      in if jlt (barCount bars) (jmul period (Num 2)) then Inr None
         else scalarCall talib
                \<lparr>name = ''ADX'', startIdx = Num 0, endIdx = jsub (barCount bars) (Num 1),
                 arrays = hlc bars, optIn = [(''optInTimePeriod'', period)]\<rparr>
                (Some [(''strong'', Num 25), (''weak'', Num 15)])
                \<lparr>requiredBars = jmul period (Num 2), providedBars = barCount bars,
                 warmupBars = jsub (jmul period (Num 2)) (Num 1),
                 params = [(''period'', Number period)]\<rparr>)"

text \<open>\<open>PLUS_DI\<close> and \<open>MINUS_DI\<close>: the two branches differ in the function name only.\<close>

definition calc_di :: "Talib \<Rightarrow> string \<Rightarrow> TransformedBars \<Rightarrow> string + IndicatorResult option" where
  "calc_di talib fname bars =
     (let period = Num 14
      in if jlt (barCount bars) (jmul period (Num 2)) then Inr None
         else scalarCall talib
                \<lparr>name = fname, startIdx = Num 0, endIdx = jsub (barCount bars) (Num 1),
                 arrays = hlc bars, optIn = [(''optInTimePeriod'', period)]\<rparr>
                None
                \<lparr>requiredBars = jmul period (Num 2), providedBars = barCount bars,
                 warmupBars = jsub (jmul period (Num 2)) (Num 1),
                 params = [(''period'', Number period)]\<rparr>)"

text \<open>
  The VWAP loop: the state is \<open>(cumulativePV, cumulativeVolume, vwapValues)\<close>, one step per
  index \<open>i\<close> below \<open>bars.close.length\<close>.
\<close>

definition vwapStep ::
  "TransformedBars \<Rightarrow> jsnum \<times> jsnum \<times> jsnum list \<Rightarrow> nat \<Rightarrow> jsnum \<times> jsnum \<times> jsnum list" where
  "vwapStep bars st i =
     (case st of (cumulativePV, cumulativeVolume, vwapValues) \<Rightarrow>
        (let typicalPrice =
               jdiv (jadd (jadd (num_at (high bars) i) (num_at (low bars) i))
                          (num_at (close bars) i)) (Num 3);
             cumulativePV' = jadd cumulativePV (jmul typicalPrice (num_at (volume bars) i));
             cumulativeVolume' = jadd cumulativeVolume (num_at (volume bars) i)
         in (cumulativePV', cumulativeVolume',
             vwapValues @ [if jgt cumulativeVolume' (Num 0)
                           then jdiv cumulativePV' cumulativeVolume'
                           else typicalPrice])))"

definition vwapLoop :: "TransformedBars \<Rightarrow> jsnum \<times> jsnum \<times> jsnum list" where
  "vwapLoop bars = foldl (vwapStep bars) (Num 0, Num 0, []) [0..<length (close bars)]"

definition calc_vwap :: "TransformedBars \<Rightarrow> string + IndicatorResult option" where
  "calc_vwap bars =
     (if jlt (barCount bars) (Num 1) then Inr None
      else
        (case vwapLoop bars of (cumulativePV, cumulativeVolume, vwapValues) \<Rightarrow>
           Inr (Some (scalarResult vwapValues None
             \<lparr>requiredBars = Num 1, providedBars = barCount bars, warmupBars = Num 0,
              params = [(''anchor'', String ''window'')]\<rparr>))))"

definition calc_cci :: "Talib \<Rightarrow> string \<Rightarrow> TransformedBars \<Rightarrow> string + IndicatorResult option" where
  "calc_cci talib normalized bars =
     (let period = periodOr normalized (Num 20)
      in if jlt (barCount bars) period then Inr None
         else scalarCall talib
                \<lparr>name = ''CCI'', startIdx = Num 0, endIdx = jsub (barCount bars) (Num 1),
                 arrays = hlc bars, optIn = [(''optInTimePeriod'', period)]\<rparr>
                (Some [(''overbought'', Num 100), (''oversold'', Num (- 100))])
                \<lparr>requiredBars = period, providedBars = barCount bars, warmupBars = jsub period (Num 1),
                 params = [(''period'', Number period)]\<rparr>)"

definition calc_stoch :: "Talib \<Rightarrow> TransformedBars \<Rightarrow> string + IndicatorResult option" where
  "calc_stoch talib bars =
     (let period = Num 14
      in if jlt (barCount bars) period then Inr None
      else
        (case talib \<lparr>name = ''STOCH'', startIdx = Num 0, endIdx = jsub (barCount bars) (Num 1),
                     arrays = hlc bars,
                     optIn = [(''optInFastK_Period'', Num 14), (''optInSlowK_Period'', Num 3),
                              (''optInSlowK_MAType'', Num 0), (''optInSlowD_Period'', Num 3),
                              (''optInSlowD_MAType'', Num 0)]\<rparr> of
           Inl e \<Rightarrow> Inl e
         | Inr res \<Rightarrow>
        (case outArray res ''outSlowK'' of Inl e \<Rightarrow> Inl e | Inr kValues \<Rightarrow>
        (case outArray res ''outSlowD'' of Inl e \<Rightarrow> Inl e | Inr dValues \<Rightarrow>
           Inr (Some
             \<lparr>val = Object [(''k'', lastv kValues), (''d'', lastv dValues)],
              prev = (if 1 < length kValues
                      then Object [(''k'', prevv kValues), (''d'', prevv dValues)]
                      else Null),
              delta = (if 1 < length kValues
                       then Object [(''k'', diffv kValues), (''d'', diffv dValues)]
                       else Null),
              levels = Some [(''overbought'', Num 80), (''oversold'', Num 20)],
              meta = \<lparr>requiredBars = period, providedBars = barCount bars,
                      warmupBars = jsub period (Num 1),
                      params = [(''fastK'', Number (Num 14)), (''slowK'', Number (Num 3)), (''slowD'', Number (Num 3))]\<rparr>,
              error = None\<rparr>)))))"

definition calc_mfi :: "Talib \<Rightarrow> string \<Rightarrow> TransformedBars \<Rightarrow> string + IndicatorResult option" where
  "calc_mfi talib normalized bars =
     (let period = periodOr normalized (Num 14)
      in if jlt (barCount bars) period then Inr None
         else scalarCall talib
                \<lparr>name = ''MFI'', startIdx = Num 0, endIdx = jsub (barCount bars) (Num 1),
                 arrays = hlc bars @ [(''volume'', volume bars)],
                 optIn = [(''optInTimePeriod'', period)]\<rparr>
                (Some [(''overbought'', Num 80), (''oversold'', Num 20)])
                \<lparr>requiredBars = period, providedBars = barCount bars, warmupBars = jsub period (Num 1),
                 params = [(''period'', Number period)]\<rparr>)"

definition calc_obv :: "Talib \<Rightarrow> TransformedBars \<Rightarrow> string + IndicatorResult option" where
  "calc_obv talib bars =
     (if jlt (barCount bars) (Num 1) then Inr None
      else scalarCall talib
             \<lparr>name = ''OBV'', startIdx = Num 0, endIdx = jsub (barCount bars) (Num 1),
              arrays = [(''inReal'', close bars), (''volume'', volume bars)], optIn = []\<rparr>
             None
             \<lparr>requiredBars = Num 1, providedBars = barCount bars, warmupBars = Num 0, params = []\<rparr>)"

text \<open>
  The body of the \<open>try\<close> block: \<open>Inl m\<close> when it throws with message \<open>m\<close>, \<open>Inr None\<close>
  for \<open>return null\<close>. The three statements before the \<open>try\<close> (lower-casing a string, the
  price array) cannot throw.
\<close>

definition calculateIndicator_try ::
  "Talib \<Rightarrow> string \<Rightarrow> TransformedBars \<Rightarrow> PriceSource option \<Rightarrow> string + IndicatorResult option" where
  "calculateIndicator_try talib indicator bars optPriceSource =
     (let normalized = replaceDashes (toLowerCase indicator);
          priceSource = (case optPriceSource of Some p \<Rightarrow> p | None \<Rightarrow> Close);
          priceArray = getPriceArray bars priceSource
      in if startsWith normalized ''sma_'' then calc_sma talib normalized bars priceArray
         else if startsWith normalized ''ema_'' then calc_ema talib normalized bars priceArray
         else if startsWith normalized ''rsi_'' then calc_rsi talib normalized bars priceArray
         else if normalized = ''macd'' \<or> startsWith normalized ''macd_''
           then calc_macd talib bars priceArray
         else if normalized = ''bbands'' \<or> startsWith normalized ''bbands_''
           then calc_bbands talib bars priceArray
         else if startsWith normalized ''atr_'' then calc_atr talib normalized bars
         else if startsWith normalized ''adx_'' then calc_adx talib normalized bars
         else if normalized = ''plus_di'' \<or> normalized = ''plusdi''
           then calc_di talib ''PLUS_DI'' bars
         else if normalized = ''minus_di'' \<or> normalized = ''minusdi''
           then calc_di talib ''MINUS_DI'' bars
         else if normalized = ''vwap'' then calc_vwap bars
         else if startsWith normalized ''cci_'' then calc_cci talib normalized bars
         else if normalized = ''stoch'' then calc_stoch talib bars
         else if startsWith normalized ''mfi_'' then calc_mfi talib normalized bars
         else if normalized = ''obv'' then calc_obv talib bars
         else Inr None)"

text \<open>The \<open>catch\<close> block turns a throw into a result carrying the message.\<close>

definition caughtResult :: "string \<Rightarrow> TransformedBars \<Rightarrow> string \<Rightarrow> IndicatorResult" where
  "caughtResult indicator bars msg =
     \<lparr>val = Null, prev = Undefined, delta = Undefined, levels = None,
      meta = \<lparr>requiredBars = getIndicatorLookback indicator, providedBars = barCount bars,
              warmupBars = Num 0, params = []\<rparr>,
      error = Some msg\<rparr>"

definition calculateIndicator ::
  "Talib \<Rightarrow> string \<Rightarrow> TransformedBars \<Rightarrow> PriceSource option \<Rightarrow> IndicatorResult option" where
  "calculateIndicator talib indicator bars optPriceSource =
     (case calculateIndicator_try talib indicator bars optPriceSource of
        Inl msg \<Rightarrow> Some (caughtResult indicator bars msg)
      | Inr r \<Rightarrow> r)"

section \<open>Derived fields\<close>

text \<open>
  The indicator map of the two functions below is read at fixed keys only; a key that is
  absent and a key bound to \<open>null\<close> are both falsy, and both are \<open>None\<close> here.
\<close>

type_synonym Indicators = "string \<Rightarrow> IndicatorResult option"

text \<open>The object \<open>derived\<close>: each of its two keys is present or not.\<close>

record Derived =
  dist_sma20_atr :: "jsnum option"
  dist_vwap_atr :: "jsnum option"

text \<open>\<open>r && r.value && typeof r.value === 'number'\<close>\<close>

definition truthyNumber :: "IndicatorResult option \<Rightarrow> bool" where
  "truthyNumber r = (case r of None \<Rightarrow> False | Some x \<Rightarrow> truthy (val x) \<and> isNumber (val x))"

definition valueOf :: "IndicatorResult option \<Rightarrow> jsnum" where
  "valueOf r = (case r of None \<Rightarrow> NaN | Some x \<Rightarrow> toNumber (val x))"

definition computeDerivedFields :: "Indicators \<Rightarrow> jsval \<Rightarrow> Derived" where
  "computeDerivedFields indicators currentPrice =
     (let atr = indicators ''atr_14'';
          sma20 = indicators ''sma_20'';
          vwap = indicators ''vwap''
      in if truthyNumber atr \<and> jgt (valueOf atr) (Num 0)
         then \<lparr>dist_sma20_atr =
                 (if truthyNumber sma20
                  then Some (jdiv (jsub (toNumber currentPrice) (valueOf sma20)) (valueOf atr))
                  else None),
               dist_vwap_atr =
                 (if truthyNumber vwap
                  then Some (jdiv (jsub (toNumber currentPrice) (valueOf vwap)) (valueOf atr))
                  else None)\<rparr>
         else \<lparr>dist_sma20_atr = None, dist_vwap_atr = None\<rparr>)"

section \<open>Regime classifier\<close>

datatype TrendBias = Bullish | Bearish | NeutralBias

datatype TrendStrength = Strong | ModerateStrength | Weak

datatype Momentum =
  PositiveStrong | PositiveWeakening | NegativeStrong | NegativeWeakening | NeutralMomentum

datatype Volatility = LowVolatility | ModerateVolatility | HighVolatility

record MicroSummary =
  trendBias :: TrendBias
  trendStrength :: TrendStrength
  momentum :: Momentum
  volatility :: Volatility
  inputs :: "string list"

text \<open>\<open>r && typeof r.value === 'number'\<close>\<close>

definition numberResult :: "IndicatorResult option \<Rightarrow> bool" where
  "numberResult r = (case r of None \<Rightarrow> False | Some x \<Rightarrow> isNumber (val x))"

text \<open>
  Each block of \<open>generateMicroSummary\<close> updates one variable and may push one tag to
  \<open>inputs\<close>; a block is a function to the new value of its variable and the tags pushed.
\<close>

definition biasFromSma :: "Indicators \<Rightarrow> jsval \<Rightarrow> TrendBias \<times> string list" where
  "biasFromSma indicators currentPrice =
     (let sma20 = indicators ''sma_20''; sma50 = indicators ''sma_50''
      in if numberResult sma20 \<and> numberResult sma50
         then (if jgt (toNumber currentPrice) (valueOf sma20) \<and> jgt (valueOf sma20) (valueOf sma50)
               then (Bullish, [''price>sma20>sma50''])
               else if jlt (toNumber currentPrice) (valueOf sma20) \<and> jlt (valueOf sma20) (valueOf sma50)
               then (Bearish, [''price<sma20<sma50''])
               else (NeutralBias, []))
         else (NeutralBias, []))"

definition biasFromDI :: "Indicators \<Rightarrow> TrendBias \<Rightarrow> TrendBias \<times> string list" where
  "biasFromDI indicators trendBias0 =
     (let plusDI = indicators ''plus_di''; minusDI = indicators ''minus_di''
      in if numberResult plusDI \<and> numberResult minusDI
         then (if jgt (valueOf plusDI) (valueOf minusDI)
               then ((if trendBias0 = Bearish then NeutralBias
                      else if trendBias0 = NeutralBias then Bullish else trendBias0),
                     [''+di>-di''])
               else ((if trendBias0 = Bullish then NeutralBias
                      else if trendBias0 = NeutralBias then Bearish else trendBias0),
                     [''+di<-di'']))
         else (trendBias0, []))"

definition strengthFromAdx :: "Indicators \<Rightarrow> TrendStrength \<times> string list" where
  "strengthFromAdx indicators =
     (let adx = indicators ''adx_14''
      in if numberResult adx
         then (if jgt (valueOf adx) (Num 25) then (Strong, [''adx>25''])
               else if jgt (valueOf adx) (Num 15) then (ModerateStrength, [''adx>15''])
               else (Weak, [''adx<15'']))
         else (Weak, []))"

definition momentumFrom :: "Indicators \<Rightarrow> Momentum \<times> string list" where
  "momentumFrom indicators =
     (case (indicators ''rsi_14'', indicators ''macd'') of
        (Some rsi, Some macd) \<Rightarrow>
          if isNumber (val rsi) \<and> truthy (val macd) \<and> isNumber (field (val macd) ''histogram'')
          then (let macdHist = toNumber (field (val macd) ''histogram'');
                    macdDelta = (if truthy (delta macd) \<and> isNumber (field (delta macd) ''histogram'')
                                 then toNumber (field (delta macd) ''histogram'') else Num 0)
                in if jgt (toNumber (val rsi)) (Num 50) \<and> jgt macdHist (Num 0)
                   then (if jgt macdDelta (Num 0)
                         then (PositiveStrong, [''macd_hist>0_rising''])
                         else (PositiveWeakening, [''macd_hist>0_falling'']))
                   else if jlt (toNumber (val rsi)) (Num 50) \<and> jlt macdHist (Num 0)
                   then (if jlt macdDelta (Num 0)
                         then (NegativeStrong, [''macd_hist<0_falling''])
                         else (NegativeWeakening, [''macd_hist<0_rising'']))
                   else (NeutralMomentum, []))
          else (NeutralMomentum, [])
      | _ \<Rightarrow> (NeutralMomentum, []))"

definition volatilityFrom :: "Indicators \<Rightarrow> jsval \<Rightarrow> Volatility \<times> string list" where
  "volatilityFrom indicators currentPrice =
     (case (indicators ''atr_14'', indicators ''bbands'') of
        (Some atr, Some bbands) \<Rightarrow>
          if isNumber (val atr) \<and> truthy (val bbands)
          then (let atrPct = jmul (jdiv (toNumber (val atr)) (toNumber currentPrice)) (Num 100);
                    bandwidth = (if isNumber (field (val bbands) ''bandwidth'')
                                 then toNumber (field (val bbands) ''bandwidth'') else Num 0)
                in if jlt atrPct (Num 1) \<and> jlt bandwidth (Num 2)
                   then (LowVolatility, [''low_volatility''])
                   else if jgt atrPct (Num 3) \<or> jgt bandwidth (Num 5)
                   then (HighVolatility, [''high_volatility''])
                   else (ModerateVolatility, []))
          else (ModerateVolatility, [])
      | _ \<Rightarrow> (ModerateVolatility, []))"

definition generateMicroSummary :: "Indicators \<Rightarrow> jsval \<Rightarrow> MicroSummary" where
  "generateMicroSummary indicators currentPrice =
     (let (trendBias0, tags0) = biasFromSma indicators currentPrice;
          (trendBias1, tags1) = biasFromDI indicators trendBias0;
          (trendStrength1, tags2) = strengthFromAdx indicators;
          (momentum1, tags3) = momentumFrom indicators;
          (volatility1, tags4) = volatilityFrom indicators currentPrice
      in \<lparr>trendBias = trendBias1, trendStrength = trendStrength1, momentum = momentum1,
          volatility = volatility1, inputs = tags0 @ tags1 @ tags2 @ tags3 @ tags4\<rparr>)"

section \<open>Pipeline orchestrator\<close>

datatype Resolution = R1m | R5m | R15m | R30m | R1h | R4h | R1d | R1w

datatype Mode = Snapshot | Window

datatype Period = P1h | P24h | P7d | P30d

datatype VwapAnchor = SessionAnchor | WindowAnchor

text \<open>An argument that is a number or a string (\<open>from\<close>, \<open>to\<close>, \<open>asOf\<close>).\<close>

datatype NumOrString = NumArg jsnum | StrArg string

text \<open>
  The request after schema validation. A key with a default is optional; the default is applied
  by the function. The schema asks of \<open>windowSize\<close> only that it is a number, at most 500.
\<close>

record Request =
  marketId :: string
  indicators :: "string list"
  resolution :: Resolution
  mode :: "Mode option"
  period :: "Period option"
  fromParam :: "NumOrString option"
  toParam :: "NumOrString option"
  windowSize :: "jsnum option"
  priceSource :: "PriceSource option"
  vwapAnchor :: "VwapAnchor option"
  strict :: "bool option"
  asOf :: "NumOrString option"
  microSummary :: "bool option"
  includeIncompleteLastBar :: "bool option"
  apiBaseUrl :: "string option"

record Warning =
  code :: string
  details :: "(string \<times> jsnum) list"

text \<open>The query of the one provider call.\<close>

record Query =
  market_id :: string
  q_resolution :: Resolution
  count_back :: jsnum
  q_from :: jsnum
  q_to :: jsnum
  q_apiBaseUrl :: "string option"

text \<open>
  What the awaited \<open>o2RequestRaw\<close> gives: a rejection with a message, or the response
  \<open>ok\<close>, \<open>status\<close>, \<open>statusText\<close>, \<open>data\<close>. The data is \<open>null\<close> (an empty body),
  something without a truthy \<open>bars\<close>, or an object with an array of bars.
\<close>

datatype Data = DataNull | DataNoBars | DataBars "RawBar list"

datatype Response = Rejects string | Resp bool int string Data

text \<open>
  What the function depends on besides its argument: the two libraries, the provider, and the
  two readings of \<open>Date.now()\<close> (in \<open>normalizePeriod\<close>, and before trimming), each an
  integer of milliseconds.
\<close>

record 'd Env =
  talib :: Talib
  decimal :: "'d DecimalLib"
  o2RequestRaw :: "Query \<Rightarrow> Response"
  now_period :: int
  now_trim :: int

record Formatted =
  f_value :: jsval
  f_error :: "string option"
  f_prev :: "jsval option"
  f_delta :: "jsval option"
  f_levels :: "(string \<times> jsnum) list option"
  f_meta :: Meta

record SnapshotOutput =
  s_marketId :: string
  s_resolution :: Resolution
  s_from :: jsnum
  s_to :: jsnum
  s_bars :: nat
  s_asOf :: jsnum
  currentPrice :: jsval
  currentPriceSource :: string
  s_warnings :: "Warning list"
  s_indicators :: "string \<Rightarrow> Formatted option"
  derived :: Derived
  s_microSummary :: "MicroSummary option"

record WindowOutput =
  w_marketId :: string
  w_resolution :: Resolution
  w_from :: jsnum
  w_to :: jsnum
  w_bars :: nat
  w_warnings :: "Warning list"
  timestamps :: "int list"
  w_indicators :: "string \<Rightarrow> jsval option"

text \<open>
  The text of an error: a string, or the template
  \<open>Insufficient bars. Required: ${maxLookback}, Available: ${bars.length}\<close> with its two
  numbers (how a number prints is not modelled).
\<close>

datatype ErrorText = Text string | InsufficientBars jsnum nat

text \<open>
  The tool response: \<open>{ok: false, error, status?}\<close>, \<open>{ok: true, data}\<close> in either output
  shape, or no response at all because an exception left the function.
\<close>

datatype ToolResponse =
    Failure ErrorText "int option"
  | SnapshotData SnapshotOutput
  | WindowData WindowOutput
  | Uncaught string

definition periodMs :: "Period \<Rightarrow> jsnum" where
  "periodMs p =
     (case p of
        P1h \<Rightarrow> Num (60 * 60 * 1000)
      | P24h \<Rightarrow> Num (24 * 60 * 60 * 1000)
      | P7d \<Rightarrow> Num (7 * 24 * 60 * 60 * 1000)
      | P30d \<Rightarrow> Num (30 * 24 * 60 * 60 * 1000))"

definition normalizePeriod :: "int \<Rightarrow> Period \<Rightarrow> jsnum \<times> jsnum" where
  "normalizePeriod now p = (jsub (numOfInt now) (periodMs p), numOfInt now)"

definition resolutionMs :: "Resolution \<Rightarrow> jsnum" where
  "resolutionMs r =
     (case r of
        R1m \<Rightarrow> Num (60 * 1000)
      | R5m \<Rightarrow> Num (5 * 60 * 1000)
      | R15m \<Rightarrow> Num (15 * 60 * 1000)
      | R30m \<Rightarrow> Num (30 * 60 * 1000)
      | R1h \<Rightarrow> Num (60 * 60 * 1000)
      | R4h \<Rightarrow> Num (4 * 60 * 60 * 1000)
      | R1d \<Rightarrow> Num (24 * 60 * 60 * 1000)
      | R1w \<Rightarrow> Num (7 * 24 * 60 * 60 * 1000))"

definition tooManyIndicators :: string where
  "tooManyIndicators = ''Too many indicators requested. Maximum is 20.''"

text \<open>
  \<open>getIndicatorLookback\<close> applied to each normalized name. Its first statement calls
  \<open>toLowerCase\<close> on the argument, which throws a \<open>TypeError\<close> when that is not a string.
\<close>

fun lookbacks :: "ident list \<Rightarrow> string + jsnum list" where
  "lookbacks [] = Inr []"
| "lookbacks (Inherited k # ids) = Inl ''indicator.toLowerCase is not a function''"
| "lookbacks (Name n # ids) =
     (case lookbacks ids of Inl e \<Rightarrow> Inl e | Inr ls \<Rightarrow> Inr (getIndicatorLookback n # ls))"

text \<open>\<open>typeof a === "string" ? parseInt(a) : a\<close>\<close>

definition toNum :: "NumOrString \<Rightarrow> jsnum" where
  "toNum a = (case a of NumArg n \<Rightarrow> n | StrArg s \<Rightarrow> parseInt s)"

text \<open>The window bounds and the warning of the \<open>asOf\<close> override.\<close>

definition resolveWindow :: "int \<Rightarrow> Request \<Rightarrow> jsnum \<times> jsnum \<times> Warning list" where
  "resolveWindow now req =
     (let (from0, to0) =
            (case (fromParam req, toParam req) of
               (Some f, Some t) \<Rightarrow> (toNum f, toNum t)
             | _ \<Rightarrow> normalizePeriod now (case period req of Some p \<Rightarrow> p | None \<Rightarrow> P24h))
      in case asOf req of
           None \<Rightarrow> (from0, to0, [])
         | Some a \<Rightarrow> (from0, toNum a, [\<lparr>code = ''AS_OF_TIMESTAMP'', details = [(''asOf'', toNum a)]\<rparr>]))"

text \<open>
  The trailing-bar step: the bars kept and the warnings pushed. \<open>bars.slice(0, -1)\<close> of a
  non-empty array is the array without its last element.
\<close>

definition dropIncompleteLastBar ::
  "bool \<Rightarrow> Resolution \<Rightarrow> int \<Rightarrow> RawBar list \<Rightarrow> RawBar list \<times> Warning list" where
  "dropIncompleteLastBar includeIncomplete res now bars =
     (if \<not> includeIncomplete \<and> 0 < length bars
      then (let lastBar = last bars;
                barDuration = resolutionMs res;
                isComplete = jge (jsub (numOfInt now) (numOfInt (bar_timestamp lastBar))) barDuration
            in if \<not> isComplete
               then (butlast bars,
                     [\<lparr>code = ''INCOMPLETE_LAST_BAR'',
                       details = [(''timestamp'', numOfInt (bar_timestamp lastBar))]\<rparr>])
               else (bars, []))
      else (bars, []))"

definition insufficientWarning :: "jsnum \<Rightarrow> nat \<Rightarrow> Warning" where
  "insufficientWarning required available =
     \<lparr>code = ''INSUFFICIENT_BARS'',
      details = [(''required'', required), (''available'', Num (real available))]\<rparr>"

text \<open>
  The sufficiency step on the bars that remain: \<open>Inl\<close> is the error of the fatal return in
  strict mode, \<open>Inr\<close> the warnings pushed.
\<close>

definition sufficiency :: "bool \<Rightarrow> RawBar list \<Rightarrow> jsnum \<Rightarrow> ErrorText + Warning list" where
  "sufficiency strct bars maxLookback =
     (if jlt (lengthOf bars) maxLookback
      then (if strct then Inl (InsufficientBars maxLookback (length bars))
            else Inr [insufficientWarning maxLookback (length bars)])
      else Inr [])"

text \<open>\<open>result.error\<close> as a condition: a present, non-empty message.\<close>

definition hasError :: "IndicatorResult \<Rightarrow> bool" where
  "hasError r = (case error r of None \<Rightarrow> False | Some e \<Rightarrow> e \<noteq> [])"

definition insufficientResult :: "string \<Rightarrow> nat \<Rightarrow> IndicatorResult" where
  "insufficientResult indicator available =
     \<lparr>val = Null, prev = Undefined, delta = Undefined, levels = None,
      meta = \<lparr>requiredBars = getIndicatorLookback indicator, providedBars = Num (real available),
              warmupBars = Num 0, params = []\<rparr>,
      error = Some ''INSUFFICIENT_BARS''\<rparr>"

text \<open>
  The loop over the normalized indicators, filling \<open>calculatedIndicators\<close>: \<open>Inl\<close> is the
  error message of the early return in strict mode.
\<close>

fun calculateAll ::
  "Talib \<Rightarrow> bool \<Rightarrow> PriceSource \<Rightarrow> TransformedBars \<Rightarrow> nat \<Rightarrow> string list \<Rightarrow> Indicators
     \<Rightarrow> string + Indicators" where
  "calculateAll lib strct ps tb available [] calculated = Inr calculated"
| "calculateAll lib strct ps tb available (indicator # rest) calculated =
     (case calculateIndicator lib indicator tb (Some ps) of
        None \<Rightarrow>
          if strct
          then Inl (''Failed to calculate indicator: '' @ indicator @ ''. Insufficient data.'')
          else calculateAll lib strct ps tb available rest
                 (calculated(indicator \<mapsto> insufficientResult indicator available))
      | Some result \<Rightarrow>
          if hasError result \<and> strct
          then Inl (''Failed to calculate indicator: '' @ indicator @ ''. Error: ''
                    @ (case error result of Some e \<Rightarrow> e | None \<Rightarrow> []))
          else calculateAll lib strct ps tb available rest (calculated(indicator \<mapsto> result)))"

text \<open>One entry of \<open>formattedIndicators\<close> in snapshot mode.\<close>

definition formatIndicator :: "IndicatorResult \<Rightarrow> Formatted" where
  "formatIndicator r =
     (if hasError r
      then \<lparr>f_value = Null, f_error = error r, f_prev = None, f_delta = None,
            f_levels = levels r, f_meta = meta r\<rparr>
      else \<lparr>f_value = val r, f_error = None, f_prev = Some (prev r), f_delta = Some (delta r),
            f_levels = levels r, f_meta = meta r\<rparr>)"

text \<open>One entry of \<open>windowIndicators\<close> in window mode.\<close>

definition windowValue :: "IndicatorResult \<Rightarrow> jsval" where
  "windowValue r = (if val r \<noteq> Null \<and> \<not> hasError r then val r else Null)"

text \<open>
  \<open>xs.slice(start)\<close>: the start is truncated to an integer (\<open>NaN\<close> and the zeros to 0),
  and a negative start counts from the end.
\<close>

definition truncate :: "real \<Rightarrow> int" where
  "truncate a = (if a < 0 then \<lceil>a\<rceil> else \<lfloor>a\<rfloor>)"

definition slice_from :: "jsnum \<Rightarrow> 'a list \<Rightarrow> 'a list" where
  "slice_from start xs =
     (let n = int (length xs);
          k = (case start of
                 Num a \<Rightarrow> (let r = truncate a in if r < 0 then max (n + r) 0 else min r n)
               | NegZero \<Rightarrow> 0
               | PInf \<Rightarrow> n
               | NInf \<Rightarrow> 0
               | NaN \<Rightarrow> 0)
      in drop (nat k) xs)"

definition strings :: "ident list \<Rightarrow> string list" where
  "strings ids = concat (map (\<lambda>i. case i of Name n \<Rightarrow> [n] | Inherited k \<Rightarrow> []) ids)"

text \<open>
  The \<open>try\<close> block from the sufficiency test on, given the bars that remain after the
  trailing-bar step and the warnings pushed so far: sufficiency, decoding, the indicator loop
  and the output of the requested mode. A throw of the decoder is caught by the enclosing
  \<open>catch\<close> and becomes a failure response.
\<close>

definition afterTrim ::
  "'d Env \<Rightarrow> Request \<Rightarrow> string list \<Rightarrow> jsnum \<Rightarrow> jsnum \<Rightarrow> jsnum \<Rightarrow> Warning list
     \<Rightarrow> RawBar list \<Rightarrow> ToolResponse" where
  "afterTrim env req normalizedIndicators maxLookback from_ts to_ts warnings1 bars =
     (let strct = (case strict req of Some b \<Rightarrow> b | None \<Rightarrow> False);
          ps = (case priceSource req of Some p \<Rightarrow> p | None \<Rightarrow> Close)
      in case sufficiency strct bars maxLookback of
           Inl e \<Rightarrow> Failure e None
         | Inr warnings2 \<Rightarrow>
             (let warnings = warnings1 @ warnings2
              in case transformBarsToArrays (decimal env) bars of
                   Inl e \<Rightarrow> Failure (Text e) None
                 | Inr transformedBars \<Rightarrow>
                     (let price = lastv (close transformedBars)
                      in case calculateAll (talib env) strct ps transformedBars (length bars)
                                normalizedIndicators Map.empty of
                           Inl e \<Rightarrow> Failure (Text e) None
                         | Inr calculatedIndicators \<Rightarrow>
                             if (case mode req of Some m \<Rightarrow> m | None \<Rightarrow> Snapshot) = Snapshot
                             then SnapshotData
                                    \<lparr>s_marketId = marketId req, s_resolution = resolution req,
                                     s_from = from_ts, s_to = to_ts, s_bars = length bars,
                                     s_asOf = to_ts, currentPrice = price,
                                     currentPriceSource = ''last_close'',
                                     s_warnings = warnings,
                                     s_indicators = map_option formatIndicator \<circ> calculatedIndicators,
                                     derived = computeDerivedFields calculatedIndicators price,
                                     s_microSummary =
                                       (if (case microSummary req of Some b \<Rightarrow> b | None \<Rightarrow> False)
                                        then Some (generateMicroSummary calculatedIndicators price)
                                        else None)\<rparr>
                             else (let ts = slice_from
                                              (jneg (case windowSize req of Some w \<Rightarrow> w | None \<Rightarrow> Num 100))
                                              (timestamp transformedBars)
                                   in WindowData
                                        \<lparr>w_marketId = marketId req, w_resolution = resolution req,
                                         w_from = from_ts, w_to = to_ts, w_bars = length ts,
                                         w_warnings = warnings, timestamps = ts,
                                         w_indicators = map_option windowValue \<circ> calculatedIndicators\<rparr>))))"

text \<open>
  The \<open>try\<close> block once the response holds bars: the trailing-bar step, which may shorten
  the bars and push a warning, then the rest.
\<close>

definition processBars ::
  "'d Env \<Rightarrow> Request \<Rightarrow> string list \<Rightarrow> jsnum \<Rightarrow> jsnum \<Rightarrow> jsnum \<Rightarrow> Warning list
     \<Rightarrow> RawBar list \<Rightarrow> ToolResponse" where
  "processBars env req normalizedIndicators maxLookback from_ts to_ts warnings0 bars0 =
     (let includeIncomplete = (case includeIncompleteLastBar req of Some b \<Rightarrow> b | None \<Rightarrow> False);
          (bars, warnings1) =
            dropIncompleteLastBar includeIncomplete (resolution req) (now_trim env) bars0
      in afterTrim env req normalizedIndicators maxLookback from_ts to_ts
           (warnings0 @ warnings1) bars)"

text \<open>
  The tool function. The second component lists the provider calls made, in order. The
  indicator count, the normalization and the lookbacks come before the \<open>try\<close>, so a throw
  there leaves the function.
\<close>

definition o2_indicators :: "'d Env \<Rightarrow> Request \<Rightarrow> ToolResponse \<times> Query list" where
  "o2_indicators env req =
     (if 20 < length (indicators req) then (Failure (Text tooManyIndicators) None, [])
      else
        (let normalizedIndicators = map normalizeIndicatorName (indicators req)
         in case lookbacks normalizedIndicators of
              Inl e \<Rightarrow> (Uncaught e, [])
            | Inr ls \<Rightarrow>
                (let maxLookback = mathMax ls;
                     (from_ts, to_ts, warnings) = resolveWindow (now_period env) req;
                     requiredBars =
                       (if (case mode req of Some m \<Rightarrow> m | None \<Rightarrow> Snapshot) = Window
                        then jadd maxLookback (case windowSize req of Some w \<Rightarrow> w | None \<Rightarrow> Num 100)
                        else jadd maxLookback (Num 50));
                     query = \<lparr>market_id = marketId req, q_resolution = resolution req,
                              count_back = requiredBars, q_from = from_ts, q_to = to_ts,
                              q_apiBaseUrl = apiBaseUrl req\<rparr>
                 in ((case o2RequestRaw env query of
                        Rejects msg \<Rightarrow> Failure (Text msg) None
                      | Resp ok status statusText data \<Rightarrow>
                          if \<not> ok then Failure (Text (''API error: '' @ statusText)) (Some status)
                          else
                            (case data of
                               DataNull \<Rightarrow>
                                 Failure (Text (''Cannot read properties of null (reading ''
                                                @ quoted ''bars'' @ '')'')) None
                             | DataNoBars \<Rightarrow> Failure (Text ''No bars returned from API'') None
                             | DataBars bars \<Rightarrow>
                                 if length bars = 0
                                 then Failure (Text ''No bars returned from API'') None
                                 else processBars env req (strings normalizedIndicators) maxLookback
                                        from_ts to_ts warnings bars)),
                     [query]))))"

section \<open>The rules as the specification words them\<close>

text \<open>
  The trend bias: start neutral; bullish if \<open>price > sma20 > sma50\<close>, bearish if
  \<open>price < sma20 < sma50\<close>.
\<close>

definition spec_smaBias :: "jsnum \<Rightarrow> jsnum \<Rightarrow> jsnum \<Rightarrow> TrendBias" where
  "spec_smaBias price sma20 sma50 =
     (if jgt price sma20 \<and> jgt sma20 sma50 then Bullish
      else if jlt price sma20 \<and> jlt sma20 sma50 then Bearish
      else NeutralBias)"

text \<open>
  Then, if \<open>+DI > -DI\<close>: bearish becomes neutral and neutral becomes bullish; otherwise
  bullish becomes neutral and neutral becomes bearish.
\<close>

definition spec_diStep :: "jsnum \<Rightarrow> jsnum \<Rightarrow> TrendBias \<Rightarrow> TrendBias" where
  "spec_diStep plusDI minusDI bias =
     (if jgt plusDI minusDI
      then (case bias of Bearish \<Rightarrow> NeutralBias | NeutralBias \<Rightarrow> Bullish | Bullish \<Rightarrow> Bullish)
      else (case bias of Bullish \<Rightarrow> NeutralBias | NeutralBias \<Rightarrow> Bearish | Bearish \<Rightarrow> Bearish))"

text \<open>
  VWAP: the typical price of bar \<open>i\<close> is \<open>(high + low + close) / 3\<close>; the cumulative sums of
  typical price times volume and of volume run over the first \<open>k\<close> bars of the series, from
  its start, in the order of the bars and in the arithmetic of doubles.
\<close>

definition typicalPrice :: "TransformedBars \<Rightarrow> nat \<Rightarrow> jsnum" where
  "typicalPrice bars i =
     jdiv (jadd (jadd (num_at (high bars) i) (num_at (low bars) i)) (num_at (close bars) i)) (Num 3)"

definition sumPV :: "TransformedBars \<Rightarrow> nat \<Rightarrow> jsnum" where
  "sumPV bars k =
     foldl (\<lambda>acc i. jadd acc (jmul (typicalPrice bars i) (num_at (volume bars) i))) (Num 0) [0..<k]"

definition sumVolume :: "TransformedBars \<Rightarrow> nat \<Rightarrow> jsnum" where
  "sumVolume bars k = foldl (\<lambda>acc i. jadd acc (num_at (volume bars) i)) (Num 0) [0..<k]"

text \<open>
  Trimming: the last bar is incomplete when \<open>now\<close> minus its timestamp is strictly less than
  the duration of the resolution; the warning then emitted carries that timestamp.
\<close>

definition lastBarIncomplete :: "Resolution \<Rightarrow> int \<Rightarrow> RawBar list \<Rightarrow> bool" where
  "lastBarIncomplete res now bars =
     jlt (jsub (numOfInt now) (numOfInt (bar_timestamp (last bars)))) (resolutionMs res)"

definition incompleteWarning :: "RawBar list \<Rightarrow> Warning" where
  "incompleteWarning bars =
     \<lparr>code = ''INCOMPLETE_LAST_BAR'',
      details = [(''timestamp'', numOfInt (bar_timestamp (last bars)))]\<rparr>"

definition remainingBars :: "Resolution \<Rightarrow> int \<Rightarrow> RawBar list \<Rightarrow> RawBar list" where
  "remainingBars res now bars = (if lastBarIncomplete res now bars then butlast bars else bars)"

section \<open>Notions used in the statements\<close>

text \<open>What the indicator loop stores under an indicator's key when it does not return early.\<close>

definition storedResult ::
  "Talib \<Rightarrow> PriceSource \<Rightarrow> TransformedBars \<Rightarrow> nat \<Rightarrow> string \<Rightarrow> IndicatorResult" where
  "storedResult lib ps tb available indicator =
     (case calculateIndicator lib indicator tb (Some ps) of
        None \<Rightarrow> insufficientResult indicator available
      | Some result \<Rightarrow> result)"

text \<open>The calculator reports a failure: it returns \<open>null\<close>, or a result with an error.\<close>

definition reportsFailure :: "Talib \<Rightarrow> PriceSource \<Rightarrow> TransformedBars \<Rightarrow> string \<Rightarrow> bool" where
  "reportsFailure lib ps tb indicator =
     (case calculateIndicator lib indicator tb (Some ps) of
        None \<Rightarrow> True
      | Some result \<Rightarrow> hasError result)"

text \<open>A response that carries data, in either output shape.\<close>

fun succeeded :: "ToolResponse \<Rightarrow> bool" where
  "succeeded (SnapshotData out) = True"
| "succeeded (WindowData out) = True"
| "succeeded _ = False"


section \<open>Concrete inputs\<close>

text \<open>A computed single-value result whose latest value is \<open>v\<close>.\<close>

definition exampleResult :: "real \<Rightarrow> IndicatorResult" where
  "exampleResult v =
     scalarResult [Num v] None
       \<lparr>requiredBars = Num 1, providedBars = Num 1, warmupBars = Num 0, params = []\<rparr>"

text \<open>The regime scenario of the specification: SMA20 105, SMA50 100, +DI 30, -DI 20.\<close>

definition regimeIndicators :: Indicators where
  "regimeIndicators =
     [''sma_20'' \<mapsto> exampleResult 105, ''sma_50'' \<mapsto> exampleResult 100,
      ''plus_di'' \<mapsto> exampleResult 30, ''minus_di'' \<mapsto> exampleResult 20]"

text \<open>An ATR of 1 with a 20-bar average of 0 (twenty closes at zero under positive highs).\<close>

definition zeroSmaIndicators :: Indicators where
  "zeroSmaIndicators = [''atr_14'' \<mapsto> exampleResult 1, ''sma_20'' \<mapsto> exampleResult 0]"

text \<open>A bar whose prices are all \<open>p\<close> and whose buy volume is \<open>v\<close>, as the provider sends it.\<close>

definition flatBar :: "string \<Rightarrow> string \<Rightarrow> int \<Rightarrow> RawBar" where
  "flatBar p v ts =
     \<lparr>buy_volume = v, close_s = p, high_s = p, low_s = p, open_s = p, sell_volume = ''0'',
      bar_timestamp = ts\<rparr>"

text \<open>
  Three five-minute bars at prices 3, 6 and 9 (scaled by \<open>10^9\<close>) with volume 1 each; at the
  time of trimming the last one is 200000 ms old.
\<close>

definition exampleBars :: "RawBar list" where
  "exampleBars =
     [flatBar ''3000000000'' ''1000000000'' 0,
      flatBar ''6000000000'' ''1000000000'' 300000,
      flatBar ''9000000000'' ''1000000000'' 600000]"

text \<open>Fourteen five-minute bars at price 3 with volume 1, the last one complete at 5000000.\<close>

definition fourteenBars :: "RawBar list" where
  "fourteenBars = map (\<lambda>i. flatBar ''3000000000'' ''1000000000'' (300000 * int i)) [0..<14]"

fun showNat :: "nat \<Rightarrow> string" where
  "showNat n = (if n < 10 then [''0123456789'' ! n] else showNat (n div 10) @ [''0123456789'' ! (n mod 10)])"

declare showNat.simps [simp del]

text \<open>
  A stand-in for the decimal library on the example bars: a decimal is a real, the constructor
  reads a non-empty string of decimal digits, or a finite number, exactly and rejects everything
  else, the arithmetic is exact, \<open>toNumber\<close> rounds to the nearest double and \<open>toString\<close>
  prints a natural number. On the strings of the example bars \<open>decimal.js\<close> gives the same
  values.
\<close>

definition exampleDecimal :: "real DecimalLib" where
  "exampleDecimal =
     \<lparr>newDecimal =
        (\<lambda>v. case v of
                String s \<Rightarrow>
                  if s \<noteq> [] \<and> list_all (isRadixDigit 10) s then Inr (real (digitsToNat 10 s))
                  else Inl (''[DecimalError] Invalid argument: '' @ s)
              | Number (Num a) \<Rightarrow> Inr a
              | _ \<Rightarrow> Inl ''[DecimalError] Invalid argument''),
      dec_pow = (\<lambda>x n. x ^ nat \<lfloor>realOf n\<rfloor>),
      dec_div = (\<lambda>x y. x / y),
      dec_add = (\<lambda>x y. x + y),
      dec_toNumber = rnd,
      dec_toString = (\<lambda>x. showNat (nat \<lfloor>x\<rfloor>))\<rparr>"

text \<open>An indicator library that throws on every call, and the example environment.\<close>

definition failingTalib :: Talib where
  "failingTalib = (\<lambda>call. Inl ''talib failed'')"

definition exampleEnv :: "RawBar list \<Rightarrow> real Env" where
  "exampleEnv bars =
     \<lparr>talib = failingTalib, decimal = exampleDecimal,
      o2RequestRaw = (\<lambda>q. Resp True 200 ''OK'' (DataBars bars)),
      now_period = 800000, now_trim = 800000\<rparr>"

text \<open>
  An indicator library whose single output is empty, as the output of a function is when the
  series is too short for its first value (the average true range over 14 bars has its first
  value at the fifteenth bar), and the environment that serves the fourteen bars with it.
\<close>

definition emptyOutputTalib :: Talib where
  "emptyOutputTalib = (\<lambda>call. Inr [(''outReal'', [])])"

definition shortSeriesEnv :: "real Env" where
  "shortSeriesEnv =
     \<lparr>talib = emptyOutputTalib, decimal = exampleDecimal,
      o2RequestRaw = (\<lambda>q. Resp True 200 ''OK'' (DataBars fourteenBars)),
      now_period = 5000000, now_trim = 5000000\<rparr>"


definition exampleRequest :: "string list \<Rightarrow> Request" where
  "exampleRequest inds =
     \<lparr>marketId = ''market'', indicators = inds, resolution = R5m, mode = None, period = None,
      fromParam = Some (NumArg (Num 0)), toParam = Some (NumArg (Num 800000)), windowSize = None,
      priceSource = None, vwapAnchor = None, strict = None, asOf = None, microSummary = None,
      includeIncompleteLastBar = None, apiBaseUrl = None\<rparr>"

text \<open>The first two example bars, decoded.\<close>

definition exampleSeries :: TransformedBars where
  "exampleSeries =
     \<lparr>open_a = [Num 3, Num 6], high = [Num 3, Num 6], low = [Num 3, Num 6],
      close = [Num 3, Num 6], volume = [Num 1, Num 1], timestamp = [0, 300000]\<rparr>"

text \<open>A decoded series of \<open>n\<close> bars at price 3 with volume 1.\<close>

definition flatSeries :: "nat \<Rightarrow> TransformedBars" where
  "flatSeries n =
     \<lparr>open_a = replicate n (Num 3), high = replicate n (Num 3), low = replicate n (Num 3),
      close = replicate n (Num 3), volume = replicate n (Num 1),
      timestamp = map (\<lambda>i. 300000 * int i) [0..<n]\<rparr>"

text \<open>One decoded bar at price 3 with no volume traded.\<close>

definition zeroVolumeSeries :: TransformedBars where
  "zeroVolumeSeries =
     \<lparr>open_a = [Num 3], high = [Num 3], low = [Num 3], close = [Num 3], volume = [Num 0],
      timestamp = [0]\<rparr>"

text \<open>
  One decoded bar at price 1.5 with volume 0.1, that is, with the double nearest to 0.1 (the
  raw strings \<open>1500000000\<close> and \<open>100000000\<close>).
\<close>

definition tenthVolumeSeries :: TransformedBars where
  "tenthVolumeSeries =
     \<lparr>open_a = [Num (3 / 2)], high = [Num (3 / 2)], low = [Num (3 / 2)], close = [Num (3 / 2)],
      volume = [Num (3602879701896397 / 2 ^ 55)], timestamp = [0]\<rparr>"

section \<open>Rounding\<close>

lemma expUp_range:
  "2 ^ k \<le> x \<Longrightarrow> k \<le> 1023 \<Longrightarrow>
     2 ^ expUp x k \<le> x \<and> k \<le> expUp x k \<and> expUp x k \<le> 1023
     \<and> (x < 2 ^ Suc (expUp x k) \<or> expUp x k = 1023)"
proof (induction x k rule: expUp.induct)
  case (1 x k)
  show ?case
  proof (cases "1023 \<le> k \<or> x < 2 ^ Suc k")
    case True
    with "1.prems" show ?thesis
      by (subst (1 2 3 4 5) expUp.simps) auto
  next
    case False
    then have "2 ^ Suc k \<le> x" "Suc k \<le> 1023"
      by auto
    from "1.IH" [OF False this] False show ?thesis
      by (subst (1 2 3 4 5) expUp.simps) auto
  qed
qed

lemma roundHalfEven_of_int: "roundHalfEven (of_int m) = m"
  by (simp add: roundHalfEven_def)

text \<open>A natural number up to \<open>2 ^ 53\<close> is a double: rounding leaves it as it is.\<close>

lemma roundMagnitude_nat:
  assumes "0 < n" and "n \<le> 2 ^ 53"
  shows "roundMagnitude neg (real n) = Num (if neg then - real n else real n)"
proof -
  let ?x = "real n"
  let ?j = "expUp ?x 0"
  have one: "1 \<le> ?x"
    using assms(1) by simp
  have r: "2 ^ ?j \<le> ?x" "?j \<le> 1023" "?x < 2 ^ Suc ?j \<or> ?j = 1023"
    using expUp_range [of 0 ?x] one by auto
  have le: "?x \<le> 2 ^ 53"
    using assms(2) by (metis of_nat_le_iff of_nat_numeral of_nat_power)
  have "(2::real) ^ ?j \<le> 2 ^ 53"
    using r(1) le by linarith
  then have j53: "?j \<le> 53"
    by (simp only: power_increasing_iff [of 2] one_less_numeral_iff semiring_norm)
  have ex: "exponent ?x = int ?j"
    using one by (simp add: exponent_def)
  have small: "?x < 2 ^ 1024"
  proof -
    have "(2::real) ^ 53 < 2 ^ 1024" by simp
    with le show ?thesis by linarith
  qed
  have nz: "?x \<noteq> 0"
    using assms(1) by simp
  show ?thesis
  proof (cases "?j \<le> 52")
    case True
    then have ulp: "pow2 (int ?j - 52) = 1 / 2 ^ (52 - ?j)"
      by (auto simp: pow2_def nat_diff_distrib' intro: arg_cong)
    have q: "?x / (1 / 2 ^ (52 - ?j)) = of_int (int (n * 2 ^ (52 - ?j)))"
      by simp
    have m0: "int (n * 2 ^ (52 - ?j)) \<noteq> 0"
      using assms(1) by simp
    have y: "of_int (int (n * 2 ^ (52 - ?j))) * (1 / 2 ^ (52 - ?j)) = ?x"
      by simp
    show ?thesis
      unfolding roundMagnitude_def ex ulp Let_def q roundHalfEven_of_int y
      using nz m0 small by (simp del: of_nat_mult of_nat_power)
  next
    case False
    with j53 have j: "?j = 53" by simp
    with r(1) le have x: "?x = 2 ^ 53" by simp
    have ulp: "pow2 (int ?j - 52) = 2"
      by (simp add: j pow2_def)
    have q: "?x / 2 = of_int (2 ^ 52)"
      by (simp add: x)
    show ?thesis
      unfolding roundMagnitude_def ex ulp Let_def q roundHalfEven_of_int
      using nz by (simp add: x)
  qed
qed

lemma roundMagnitude_zero: "roundMagnitude neg 0 = (if neg then NegZero else Num 0)"
  by (simp add: roundMagnitude_def)

lemma roundMagnitude_one: "roundMagnitude neg 1 = Num (if neg then - 1 else 1)"
  using roundMagnitude_nat [of 1 neg] by simp

lemma roundMagnitude_numeral:
  "numeral k \<le> (2 ^ 53 :: nat) \<Longrightarrow>
     roundMagnitude neg (numeral k) = Num (if neg then - numeral k else numeral k)"
  using roundMagnitude_nat [of "numeral k" neg] by simp

lemma rnd_zero: "rnd 0 = Num 0"
  by (simp add: rnd_def roundMagnitude_def)

lemma rnd_one: "rnd 1 = Num 1" "rnd (- 1) = Num (- 1)"
  by (simp_all add: rnd_def roundMagnitude_one)

lemma rnd_numeral:
  "numeral k \<le> (2 ^ 53 :: nat) \<Longrightarrow> rnd (numeral k) = Num (numeral k)"
  "numeral k \<le> (2 ^ 53 :: nat) \<Longrightarrow> rnd (- numeral k) = Num (- numeral k)"
  by (simp_all add: rnd_def roundMagnitude_numeral)

lemma rnd_of_int: "\<bar>i\<bar> \<le> 2 ^ 53 \<Longrightarrow> rnd (of_int i) = Num (of_int i)"
proof (cases "i = 0")
  case True
  then show ?thesis by (simp add: rnd_zero)
next
  case False
  assume b: "\<bar>i\<bar> \<le> 2 ^ 53"
  have a: "\<bar>real_of_int i\<bar> = real (nat \<bar>i\<bar>)"
    by simp
  have "0 < nat \<bar>i\<bar>" "nat \<bar>i\<bar> \<le> 2 ^ 53"
    using False b by (auto simp: nat_le_iff)
  from roundMagnitude_nat [OF this, of "i < 0"] show ?thesis
    unfolding rnd_def a by (auto simp del: of_nat_nat)
qed

lemma numOfInt_exact: "\<bar>i\<bar> \<le> 2 ^ 53 \<Longrightarrow> numOfInt i = Num (of_int i)"
  by (simp add: numOfInt_def rnd_of_int)

lemma numOfInt_numeral:
  "numOfInt 0 = Num 0"
  "numeral k \<le> (2 ^ 53 :: nat) \<Longrightarrow> numOfInt (numeral k) = Num (numeral k)"
  by (simp_all add: numOfInt_def rnd_zero rnd_numeral)

text \<open>Rules that evaluate the arithmetic of doubles on integers up to \<open>2 ^ 53\<close>.\<close>

lemmas num_simps =
  jadd_def jsub_def jmul_def jdiv_def jlt_def jgt_def jge_def jmax_def mathMax_def
  signedInf_def signedZero_def falsyNumber_def lengthOf_def
  roundMagnitude_zero roundMagnitude_one roundMagnitude_numeral
  rnd_zero rnd_one rnd_numeral numOfInt_numeral

text \<open>Rules that evaluate a rounding by its definition.\<close>

lemmas round_defs =
  roundMagnitude_def rnd_def exponent_def expUp.simps expDown.simps pow2_def roundHalfEven_def
  Let_def

section \<open>Evaluation rules\<close>

lemmas string_defs = toLowerCase_def toLowerCase_char_def replaceDashes_def startsWith_def

lemmas parseInt_defs =
  periodOr_def parseInt_def signedNumber_def isWhiteSpace_def parseUnsigned_def parseDigits_def
  isRadixDigit_def digitValue_def digitsToNat_def

lemmas decoder_defs =
  exampleDecimal_def isRadixDigit_def digitValue_def digitsToNat_def scaleDown_def
  priceDecimals_def volumeDecimals_def pushBar_def totalVolume_def

section \<open>Lookback resolver\<close>

text \<open>
  C2. The specification: for an identifier with an explicit period suffix \<open>P\<close> the resolver returns
  the required-bar count of the table, in particular \<open>P\<close> for \<open>atr_P\<close>, \<open>cci_P\<close> and
  \<open>mfi_P\<close>. The resolver returns the constants 14, 20 and 14 for these three families
  whatever the suffix: at \<open>atr_20\<close>, \<open>cci_14\<close> and \<open>mfi_20\<close> it gives 14, 20 and 14 where
  the table gives 20, 14 and 20.
\<close>

theorem lookback_ignores_period_of_atr_cci_mfi:
  "getIndicatorLookback ''atr_20'' = Num 14
   \<and> getIndicatorLookback ''cci_14'' = Num 20
   \<and> getIndicatorLookback ''mfi_20'' = Num 14"
  by (simp add: getIndicatorLookback_def string_defs)

text \<open>The families whose branch reads the suffix follow the table.\<close>

lemma lookback_reads_period_of_sma_ema_rsi_adx:
  "getIndicatorLookback ''sma_50'' = Num 50
   \<and> getIndicatorLookback ''ema_26'' = Num 52
   \<and> getIndicatorLookback ''rsi_21'' = Num 22
   \<and> getIndicatorLookback ''adx_20'' = Num 40"
  by (simp add: getIndicatorLookback_def string_defs parseInt_defs num_simps)

text \<open>
  The calculator, on the same identifiers, does read the suffix: with enough bars the result's
  \<open>requiredBars\<close> is the period written in the name.
\<close>

lemma calculator_reads_period_of_atr:
  assumes "\<And>call. talib_f call = Inr [(''outReal'', vs)]"
    and "20 \<le> length (close bars)"
  shows "map_option (requiredBars \<circ> meta) (calculateIndicator talib_f ''atr_20'' bars ps)
         = Some (Num 20)"
proof -
  have p: "periodOr ''atr_20'' (Num 14) = Num 20"
    by (simp add: parseInt_defs string_defs num_simps)
  have g: "\<not> jlt (barCount bars) (Num 20)"
    using assms(2) by (simp add: barCount_def lengthOf_def jlt_def)
  show ?thesis
    using assms(1) g
    by (simp add: calculateIndicator_def calculateIndicator_try_def calc_atr_def scalarCall_def
          outArray_def scalarResult_def string_defs p Let_def)
qed

section \<open>Normalization\<close>

lemma toLowerCase_char_idem: "toLowerCase_char (toLowerCase_char c) = toLowerCase_char c"
proof (cases c)
  case (Char b0 b1 b2 b3 b4 b5 b6 b7)
  show ?thesis
    unfolding Char
    by (cases b0; cases b1; cases b2; cases b3; cases b4; cases b5; cases b6; cases b7;
        simp add: toLowerCase_char_def)
qed

lemma toLowerCase_char_underscore: "toLowerCase_char CHR ''_'' = CHR ''_''"
  by (simp add: toLowerCase_char_def)

lemma normalized_fixed:
  "replaceDashes (toLowerCase (replaceDashes (toLowerCase s))) = replaceDashes (toLowerCase s)"
  by (simp add: replaceDashes_def toLowerCase_def toLowerCase_char_idem toLowerCase_char_underscore)

lemma alias_values_fixed:
  "map_of aliases k = Some a \<Longrightarrow> normalizeIndicatorName a = Name a"
  by (auto simp: aliases_def normalizeIndicatorName_def string_defs inheritedKeys_def
           split: if_splits)

text \<open>Whenever the normalizer returns a string, that string is a fixed point.\<close>

lemma normalize_string_fixed:
  assumes "normalizeIndicatorName s = Name t"
  shows "normalizeIndicatorName t = Name t"
proof (cases "map_of aliases (replaceDashes (toLowerCase s))")
  case (Some a)
  with assms have "t = a"
    by (simp add: normalizeIndicatorName_def Let_def)
  with Some show ?thesis
    using alias_values_fixed by blast
next
  case None
  with assms have t: "t = replaceDashes (toLowerCase s)"
    and ni: "replaceDashes (toLowerCase s) \<notin> set inheritedKeys"
    by (auto simp: normalizeIndicatorName_def Let_def split: if_splits)
  have "replaceDashes (toLowerCase t) = t"
    using t normalized_fixed by simp
  with None ni t show ?thesis
    by (simp add: normalizeIndicatorName_def Let_def)
qed

text \<open>
  C10. The specification: the normalizer is idempotent on every input string. At the string
  \<open>constructor\<close> the alias lookup finds the inherited property of that name, and the
  function returns it: the result is not a string, so it is not the fixed point
  \<open>constructor\<close>, and applying the normalizer to it again throws. (Every result that is a
  string is a fixed point: \<open>normalize_string_fixed\<close>.)
\<close>

theorem normalize_constructor_not_a_string:
  "normalizeIndicatorName ''constructor'' = Inherited ''constructor''
   \<and> normalizeIndicatorName ''constructor'' \<noteq> Name ''constructor''"
  by (simp add: normalizeIndicatorName_def string_defs aliases_def inheritedKeys_def)

text \<open>
  A request that names \<open>constructor\<close> does not get a response: the resolver is applied to
  the value that is not a string, before the \<open>try\<close> block, and the exception leaves the
  tool function without a provider call.
\<close>

lemma inherited_name_leaves_function:
  "o2_indicators env (exampleRequest [''constructor''])
   = (Uncaught ''indicator.toLowerCase is not a function'', [])"
  by (simp add: o2_indicators_def exampleRequest_def normalizeIndicatorName_def string_defs
        aliases_def inheritedKeys_def)

section \<open>Derived fields\<close>

text \<open>
  C9. The specification: \<open>dist_sma20_atr\<close> is present exactly when the ATR value is a number above 0
  and the SMA20 value is a number. With an ATR of 1, an SMA20 of 0 and a price of 5 both
  values are numbers and the specification gives \<open>(5 - 0) / 1\<close>; the function tests the SMA20 value
  for truthiness first, zero is falsy, and the field is omitted.
\<close>

theorem derived_omits_zero_sma20:
  "dist_sma20_atr (computeDerivedFields zeroSmaIndicators (Number (Num 5))) = None"
  by (simp add: computeDerivedFields_def zeroSmaIndicators_def exampleResult_def scalarResult_def
        truthyNumber_def valueOf_def lastv_def elemAt_def num_simps)

text \<open>The function as it is: a field is present exactly when both values are truthy numbers.\<close>

lemma derived_sma20_present_iff:
  "dist_sma20_atr (computeDerivedFields ind price) \<noteq> None \<longleftrightarrow>
     truthyNumber (ind ''atr_14'') \<and> jgt (valueOf (ind ''atr_14'')) (Num 0)
     \<and> truthyNumber (ind ''sma_20'')"
  by (auto simp: computeDerivedFields_def Let_def)

section \<open>Regime classifier\<close>

text \<open>
  C7. When the values of \<open>sma_20\<close>, \<open>sma_50\<close>, \<open>plus_di\<close> and \<open>minus_di\<close> are all
  numbers, the trend bias of the summary is the specification's rule: the SMA comparison sets
  the first bias and the DI comparison moves it one step. The DI step never turns a bullish
  first bias into bearish, nor a bearish one into bullish.
\<close>

theorem trendBias_follows_rule:
  assumes "ind ''sma_20'' = Some r20" and "val r20 = Number sma20"
    and "ind ''sma_50'' = Some r50" and "val r50 = Number sma50"
    and "ind ''plus_di'' = Some rp" and "val rp = Number plusDI"
    and "ind ''minus_di'' = Some rm" and "val rm = Number minusDI"
  shows "trendBias (generateMicroSummary ind price)
           = spec_diStep plusDI minusDI (spec_smaBias (toNumber price) sma20 sma50)
         \<and> (spec_smaBias (toNumber price) sma20 sma50 = Bullish
              \<longrightarrow> trendBias (generateMicroSummary ind price) \<noteq> Bearish)
         \<and> (spec_smaBias (toNumber price) sma20 sma50 = Bearish
              \<longrightarrow> trendBias (generateMicroSummary ind price) \<noteq> Bullish)"
  using assms
  by (simp add: generateMicroSummary_def biasFromSma_def biasFromDI_def numberResult_def
        valueOf_def spec_smaBias_def spec_diStep_def Let_def split: prod.splits)

theorem trendBias_follows_rule_witness:
  "regimeIndicators ''sma_20'' = Some (exampleResult 105)
   \<and> val (exampleResult 105) = Number (Num 105)
   \<and> spec_smaBias (Num 110) (Num 105) (Num 100) = Bullish
   \<and> trendBias (generateMicroSummary regimeIndicators (Number (Num 110))) = Bullish"
proof -
  have v: "val (exampleResult x) = Number (Num x)" for x
    by (simp add: exampleResult_def scalarResult_def lastv_def elemAt_def)
  have r: "regimeIndicators ''sma_20'' = Some (exampleResult 105)"
    "regimeIndicators ''sma_50'' = Some (exampleResult 100)"
    "regimeIndicators ''plus_di'' = Some (exampleResult 30)"
    "regimeIndicators ''minus_di'' = Some (exampleResult 20)"
    by (simp_all add: regimeIndicators_def)
  show ?thesis
    using trendBias_follows_rule [OF r(1) v r(2) v r(3) v r(4) v, of "Number (Num 110)"] r(1) v
    by (simp add: spec_smaBias_def spec_diStep_def num_simps)
qed

section \<open>Orchestrator\<close>

text \<open>
  C4. A request with more than 20 indicators gets the failure response of the count rule and
  the list of provider calls is empty; the response does not depend on the provider or on the
  indicator library, so nothing is fetched or computed. A request with at most 20 indicators,
  so one with exactly 20, does not end this way.
\<close>

theorem too_many_indicators_rejected_first:
  "(20 < length (indicators req)
      \<longrightarrow> o2_indicators env req = (Failure (Text tooManyIndicators) None, []))
   \<and> (length (indicators req) \<le> 20
      \<longrightarrow> o2_indicators env req \<noteq> (Failure (Text tooManyIndicators) None, []))"
  by (auto simp: o2_indicators_def Let_def split: sum.splits prod.splits)

theorem too_many_indicators_rejected_first_witness:
  "20 < length (indicators (exampleRequest (replicate 21 ''vwap'')))
   \<and> o2_indicators (exampleEnv exampleBars) (exampleRequest (replicate 21 ''vwap''))
       = (Failure (Text tooManyIndicators) None, [])
   \<and> length (indicators (exampleRequest (replicate 20 ''vwap''))) = 20
   \<and> o2_indicators (exampleEnv exampleBars) (exampleRequest (replicate 20 ''vwap''))
       \<noteq> (Failure (Text tooManyIndicators) None, [])"
  using too_many_indicators_rejected_first
          [of "exampleRequest (replicate 21 ''vwap'')" "exampleEnv exampleBars"]
        too_many_indicators_rejected_first
          [of "exampleRequest (replicate 20 ''vwap'')" "exampleEnv exampleBars"]
  by (simp add: exampleRequest_def)

section \<open>The pipeline on fetched bars\<close>

lemma rnd_not_NaN: "rnd x \<noteq> NaN"
  by (simp add: rnd_def roundMagnitude_def Let_def)

lemma numOfInt_not_NaN: "numOfInt i \<noteq> NaN"
  by (simp add: numOfInt_def rnd_not_NaN)

lemma jsub_Num_not_NaN: "y \<noteq> NaN \<Longrightarrow> jsub (Num a) y \<noteq> NaN"
  by (cases y) (simp_all add: jsub_def jadd_def rnd_not_NaN)

lemma not_jge_iff_jlt: "x \<noteq> NaN \<Longrightarrow> y \<noteq> NaN \<Longrightarrow> (\<not> jge x y) = jlt x y"
  by (simp add: jge_def)

lemma resolutionMs_not_NaN: "resolutionMs res \<noteq> NaN"
  by (cases res) (simp_all add: resolutionMs_def)

lemma trim_test:
  assumes "\<bar>now\<bar> \<le> 8640000000000000"
  shows "(\<not> jge (jsub (numOfInt now) (numOfInt (bar_timestamp (last bars)))) (resolutionMs res))
         = lastBarIncomplete res now bars"
proof -
  have "\<bar>now\<bar> \<le> 2 ^ 53"
    using assms by simp
  then have n: "numOfInt now = Num (of_int now)"
    by (rule numOfInt_exact)
  show ?thesis
    unfolding lastBarIncomplete_def n
    by (rule not_jge_iff_jlt) (simp_all add: jsub_Num_not_NaN numOfInt_not_NaN resolutionMs_not_NaN)
qed

lemma dropIncompleteLastBar_eq:
  assumes "bars \<noteq> []" and "\<bar>now\<bar> \<le> 8640000000000000"
  shows "dropIncompleteLastBar False res now bars
         = (remainingBars res now bars,
            if lastBarIncomplete res now bars then [incompleteWarning bars] else [])"
  using assms(1)
  by (simp add: dropIncompleteLastBar_def Let_def trim_test [OF assms(2)] remainingBars_def
        incompleteWarning_def)

lemma default_flag: "flag \<noteq> Some True \<Longrightarrow> (case flag of Some b \<Rightarrow> b | None \<Rightarrow> False) = False"
  by (cases flag) auto

lemma processBars_trim:
  assumes "includeIncompleteLastBar req \<noteq> Some True" and "fetched \<noteq> []"
    and "\<bar>now_trim env\<bar> \<le> 8640000000000000"
  shows "processBars env req names mx f t w0 fetched
         = afterTrim env req names mx f t
             (w0 @ (if lastBarIncomplete (resolution req) (now_trim env) fetched
                    then [incompleteWarning fetched] else []))
             (remainingBars (resolution req) (now_trim env) fetched)"
  by (simp add: processBars_def default_flag [OF assms(1)]
        dropIncompleteLastBar_eq [OF assms(2,3)])

lemma decoded_timestamps:
  "transformBarsToArrays lib bars = Inr tb \<Longrightarrow> timestamp tb = map bar_timestamp bars"
proof (induction bars arbitrary: tb)
  case Nil
  then show ?case by auto
next
  case (Cons bar bars)
  then show ?case
    by (auto simp: pushBar_def split: sum.splits prod.splits)
qed

lemma decoded_lengths:
  "transformBarsToArrays lib bars = Inr tb \<Longrightarrow>
     length (close tb) = length bars \<and> length (high tb) = length bars
     \<and> length (low tb) = length bars \<and> length (volume tb) = length bars
     \<and> length (open_a tb) = length bars"
proof (induction bars arbitrary: tb)
  case Nil
  then show ?case by auto
next
  case (Cons bar bars)
  then show ?case
    by (auto split: sum.splits prod.splits)
qed

lemma afterTrim_observables:
  "case afterTrim env req names mx f t w bars of
     SnapshotData out \<Rightarrow>
       s_bars out = length bars
       \<and> s_warnings out
           = w @ (if jlt (lengthOf bars) mx then [insufficientWarning mx (length bars)] else [])
   | WindowData out \<Rightarrow>
       timestamps out
         = slice_from (jneg (case windowSize req of Some ws \<Rightarrow> ws | None \<Rightarrow> Num 100))
             (map bar_timestamp bars)
       \<and> w_warnings out
           = w @ (if jlt (lengthOf bars) mx then [insufficientWarning mx (length bars)] else [])
   | Failure m st \<Rightarrow> (\<forall>r a. m = InsufficientBars r a \<longrightarrow> r = mx \<and> a = length bars)
   | Uncaught e \<Rightarrow> False"
  by (auto simp: afterTrim_def sufficiency_def Let_def decoded_timestamps
        split: sum.splits)

lemma resolveWindow_warnings:
  "x \<in> set (snd (snd (resolveWindow now req))) \<Longrightarrow> code x = ''AS_OF_TIMESTAMP''"
  by (auto simp: resolveWindow_def Let_def split: option.splits prod.splits)

lemma o2_indicators_on_bars:
  assumes "snd (o2_indicators env req) = [q]"
    and "o2RequestRaw env q = Resp True status statusText (DataBars fetched)"
    and "fetched \<noteq> []"
  shows "\<exists>ls. lookbacks (map normalizeIndicatorName (indicators req)) = Inr ls
           \<and> fst (o2_indicators env req)
               = processBars env req (strings (map normalizeIndicatorName (indicators req)))
                   (mathMax ls) (fst (resolveWindow (now_period env) req))
                   (fst (snd (resolveWindow (now_period env) req)))
                   (snd (snd (resolveWindow (now_period env) req))) fetched"
  using assms
  by (auto simp: o2_indicators_def Let_def split: if_splits sum.splits prod.splits)
section \<open>The example request\<close>

lemma example_incomplete: "lastBarIncomplete R5m 800000 exampleBars"
  by (simp add: lastBarIncomplete_def exampleBars_def flatBar_def resolutionMs_def num_simps)

lemma example_trim:
  "dropIncompleteLastBar False R5m 800000 exampleBars
   = (butlast exampleBars, [incompleteWarning exampleBars])"
proof -
  have "exampleBars \<noteq> []"
    by (simp add: exampleBars_def)
  from dropIncompleteLastBar_eq [OF this, of 800000 R5m] show ?thesis
    by (simp add: example_incomplete remainingBars_def)
qed

lemma example_decoded: "transformBarsToArrays exampleDecimal (butlast exampleBars) = Inr exampleSeries"
  by (simp add: exampleBars_def flatBar_def decoder_defs exampleSeries_def showNat.simps num_simps)

lemma example_vwap:
  "calculateIndicator lib ''vwap'' exampleSeries ps
   = Some (scalarResult [Num 3, Num (9 / 2)] None
             \<lparr>requiredBars = Num 1, providedBars = Num 2, warmupBars = Num 0,
              params = [(''anchor'', String ''window'')]\<rparr>)"
proof -
  have half: "roundMagnitude False (9 / 2) = Num (9 / 2)"
    by (simp add: round_defs)
  show ?thesis
    by (simp add: calculateIndicator_def calculateIndicator_try_def string_defs calc_vwap_def
          barCount_def vwapLoop_def vwapStep_def num_at_def elemAt_def upt_rec Let_def
          exampleSeries_def num_simps half)
qed

lemma example_window_response:
  "case fst (o2_indicators (exampleEnv exampleBars)
              ((exampleRequest [''vwap''])\<lparr>mode := Some Window\<rparr>)) of
     WindowData out \<Rightarrow>
       timestamps out = [0, 300000]
       \<and> w_indicators out ''vwap'' = Some (Number (Num (9 / 2)))
       \<and> w_warnings out = [incompleteWarning exampleBars]
   | _ \<Rightarrow> False"
proof -
  have lb: "lookbacks [normalizeIndicatorName ''vwap''] = Inr [Num 1]"
    by (simp add: normalizeIndicatorName_def string_defs aliases_def inheritedKeys_def
          getIndicatorLookback_def)
  have len: "length exampleBars = 3" "exampleBars \<noteq> []"
    by (simp_all add: exampleBars_def)
  have lk: "getIndicatorLookback ''vwap'' = Num 1"
    by (simp add: getIndicatorLookback_def string_defs)
  have ts: "timestamp exampleSeries = [0, 300000]"
    by (simp add: exampleSeries_def)
  show ?thesis
    by (simp add: o2_indicators_def exampleEnv_def exampleRequest_def lb
          resolveWindow_def toNum_def processBars_def example_trim afterTrim_def sufficiency_def
          len lk example_decoded example_vwap ts strings_def
          normalizeIndicatorName_def string_defs aliases_def inheritedKeys_def
          hasError_def scalarResult_def windowValue_def lastv_def elemAt_def slice_from_def
          truncate_def Let_def num_simps)
qed

lemma example_window_succeeds:
  "\<exists>out. fst (o2_indicators (exampleEnv exampleBars)
                ((exampleRequest [''vwap''])\<lparr>mode := Some Window\<rparr>)) = WindowData out"
  using example_window_response by (auto split: ToolResponse.splits)

section \<open>Trailing-bar trimming\<close>

lemma jsub_of_int:
  assumes "\<bar>a - b\<bar> \<le> 2 ^ 53"
  shows "jsub (Num (of_int a)) (Num (of_int b)) = Num (of_int (a - b))"
proof (cases "a = b")
  case True
  then show ?thesis
    by (simp add: jsub_def jadd_def)
next
  case False
  have r: "rnd (of_int a - of_int b) = Num (of_int a - of_int b)"
    using rnd_of_int [OF assms] by simp
  show ?thesis
  proof (cases "b = 0")
    case True
    with False r show ?thesis
      by (simp add: jsub_def jadd_def)
  next
    case b: False
    with False r show ?thesis
      by (simp add: jsub_def jadd_def)
  qed
qed

lemma lastBarIncomplete_integer:
  assumes "resolutionMs res = Num (of_int d)"
    and "\<bar>now\<bar> \<le> 2 ^ 52" and "\<bar>bar_timestamp (last bars)\<bar> \<le> 2 ^ 52"
  shows "lastBarIncomplete res now bars \<longleftrightarrow> now - bar_timestamp (last bars) < d"
proof -
  let ?t = "bar_timestamp (last bars)"
  have n: "numOfInt now = Num (of_int now)" and t: "numOfInt ?t = Num (of_int ?t)"
    using assms(2,3) by (simp_all add: numOfInt_exact)
  have "\<bar>now - ?t\<bar> \<le> 2 ^ 53"
    using assms(2,3) by simp
  then have s: "jsub (Num (of_int now)) (Num (of_int ?t)) = Num (of_int (now - ?t))"
    by (rule jsub_of_int)
  show ?thesis
    unfolding lastBarIncomplete_def n t s assms(1)
    by (simp add: jlt_def del: of_int_diff)
qed

lemma resolution_table:
  "map resolutionMs [R1m, R5m, R15m, R30m, R1h, R4h, R1d, R1w]
   = map Num [60000, 300000, 900000, 1800000, 3600000, 14400000, 86400000, 604800000]"
  by (simp add: resolutionMs_def)

lemma incomplete_warnings_only:
  assumes "\<And>x. x \<in> set w0 \<Longrightarrow> code x = ''AS_OF_TIMESTAMP''"
  shows "filter (\<lambda>w. code w = ''INCOMPLETE_LAST_BAR'')
           ((w0 @ (if inc then [incompleteWarning fetched] else []))
            @ (if short then [insufficientWarning mx n] else []))
         = (if inc then [incompleteWarning fetched] else [])"
proof -
  have "filter (\<lambda>w. code w = ''INCOMPLETE_LAST_BAR'') w0 = []"
    using assms by (auto simp: filter_empty_conv)
  then show ?thesis
    by (simp add: incompleteWarning_def insufficientWarning_def)
qed

text \<open>
  C5. The request reaches the provider, the provider answers with bars, and
  \<open>includeIncompleteLastBar\<close> is false (given so, or left to its default); \<open>Date.now()\<close>
  is within the range of times of the language. The last bar is incomplete when \<open>now\<close> minus
  its timestamp, computed in doubles as the function does, is below the duration of the
  resolution; for a clock and a timestamp of magnitude up to \<open>2 ^ 52\<close> that is the
  comparison of the integers. The bars that remain are the fetched bars without the last one if
  it is incomplete, and the fetched bars otherwise. The response shows it: a snapshot counts the
  remaining bars, a window lists their timestamps (the last \<open>windowSize\<close> of them), a
  failure for insufficient bars reports their number; and the warnings of the response hold one
  \<open>INCOMPLETE_LAST_BAR\<close> warning, with the timestamp of the last fetched bar, if that bar is
  incomplete, and none otherwise. The durations are those of the resolution table.
\<close>

theorem trailing_bar_trimmed_iff_incomplete:
  assumes "snd (o2_indicators env req) = [q]"
    and "o2RequestRaw env q = Resp True status statusText (DataBars fetched)"
    and "fetched \<noteq> []"
    and "includeIncompleteLastBar req \<noteq> Some True"
    and "\<bar>now_trim env\<bar> \<le> 8640000000000000"
  shows "(case fst (o2_indicators env req) of
            SnapshotData out \<Rightarrow>
              s_bars out = length (remainingBars (resolution req) (now_trim env) fetched)
              \<and> filter (\<lambda>w. code w = ''INCOMPLETE_LAST_BAR'') (s_warnings out)
                  = (if lastBarIncomplete (resolution req) (now_trim env) fetched
                     then [incompleteWarning fetched] else [])
          | WindowData out \<Rightarrow>
              timestamps out
                = slice_from (jneg (case windowSize req of Some ws \<Rightarrow> ws | None \<Rightarrow> Num 100))
                    (map bar_timestamp (remainingBars (resolution req) (now_trim env) fetched))
              \<and> filter (\<lambda>w. code w = ''INCOMPLETE_LAST_BAR'') (w_warnings out)
                  = (if lastBarIncomplete (resolution req) (now_trim env) fetched
                     then [incompleteWarning fetched] else [])
          | Failure m st \<Rightarrow>
              (\<forall>r a. m = InsufficientBars r a
                 \<longrightarrow> a = length (remainingBars (resolution req) (now_trim env) fetched))
          | Uncaught e \<Rightarrow> False)
       \<and> remainingBars (resolution req) (now_trim env) fetched
           = (if lastBarIncomplete (resolution req) (now_trim env) fetched
              then butlast fetched else fetched)
       \<and> (\<forall>d. resolutionMs (resolution req) = Num (of_int d)
               \<and> \<bar>now_trim env\<bar> \<le> 2 ^ 52 \<and> \<bar>bar_timestamp (last fetched)\<bar> \<le> 2 ^ 52
             \<longrightarrow> (lastBarIncomplete (resolution req) (now_trim env) fetched
                   \<longleftrightarrow> now_trim env - bar_timestamp (last fetched) < d))
       \<and> map resolutionMs [R1m, R5m, R15m, R30m, R1h, R4h, R1d, R1w]
           = map Num [60000, 300000, 900000, 1800000, 3600000, 14400000, 86400000, 604800000]"
proof -
  let ?w0 = "snd (snd (resolveWindow (now_period env) req))"
  let ?inc = "lastBarIncomplete (resolution req) (now_trim env) fetched"
  let ?rem = "remainingBars (resolution req) (now_trim env) fetched"
  from o2_indicators_on_bars [OF assms(1-3)] obtain ls where
    top: "fst (o2_indicators env req)
          = processBars env req (strings (map normalizeIndicatorName (indicators req)))
              (mathMax ls) (fst (resolveWindow (now_period env) req))
              (fst (snd (resolveWindow (now_period env) req))) ?w0 fetched"
    by blast
  note trim = processBars_trim [OF assms(4,3,5)]
  note obs = afterTrim_observables
               [where env = env and req = req
                  and names = "strings (map normalizeIndicatorName (indicators req))"
                  and mx = "mathMax ls" and f = "fst (resolveWindow (now_period env) req)"
                  and t = "fst (snd (resolveWindow (now_period env) req))"
                  and w = "?w0 @ (if ?inc then [incompleteWarning fetched] else [])"
                  and bars = ?rem]
  have flt: "filter (\<lambda>w. code w = ''INCOMPLETE_LAST_BAR'')
               ((?w0 @ (if ?inc then [incompleteWarning fetched] else []))
                @ (if short then [insufficientWarning mx n] else []))
             = (if ?inc then [incompleteWarning fetched] else [])" for short mx n
    by (rule incomplete_warnings_only) (rule resolveWindow_warnings)
  have first: "case fst (o2_indicators env req) of
            SnapshotData out \<Rightarrow>
              s_bars out = length ?rem
              \<and> filter (\<lambda>w. code w = ''INCOMPLETE_LAST_BAR'') (s_warnings out)
                  = (if ?inc then [incompleteWarning fetched] else [])
          | WindowData out \<Rightarrow>
              timestamps out
                = slice_from (jneg (case windowSize req of Some ws \<Rightarrow> ws | None \<Rightarrow> Num 100))
                    (map bar_timestamp ?rem)
              \<and> filter (\<lambda>w. code w = ''INCOMPLETE_LAST_BAR'') (w_warnings out)
                  = (if ?inc then [incompleteWarning fetched] else [])
          | Failure m st \<Rightarrow> (\<forall>r a. m = InsufficientBars r a \<longrightarrow> a = length ?rem)
          | Uncaught e \<Rightarrow> False"
    using obs unfolding top trim
    by (cases "afterTrim env req (strings (map normalizeIndicatorName (indicators req)))
                 (mathMax ls) (fst (resolveWindow (now_period env) req))
                 (fst (snd (resolveWindow (now_period env) req)))
                 (?w0 @ (if ?inc then [incompleteWarning fetched] else [])) ?rem")
       (simp_all only: ToolResponse.case flt, simp_all)
  have second: "?rem = (if ?inc then butlast fetched else fetched)"
    by (simp add: remainingBars_def)
  have third: "\<forall>d. resolutionMs (resolution req) = Num (of_int d)
               \<and> \<bar>now_trim env\<bar> \<le> 2 ^ 52 \<and> \<bar>bar_timestamp (last fetched)\<bar> \<le> 2 ^ 52
             \<longrightarrow> (?inc \<longleftrightarrow> now_trim env - bar_timestamp (last fetched) < d)"
    using lastBarIncomplete_integer by blast
  from first second third resolution_table show ?thesis
    by (intro conjI)
qed

theorem trailing_bar_trimmed_iff_incomplete_witness:
  "snd (o2_indicators (exampleEnv exampleBars) ((exampleRequest [''vwap''])\<lparr>mode := Some Window\<rparr>))
     = [\<lparr>market_id = ''market'', q_resolution = R5m, count_back = Num 101, q_from = Num 0,
         q_to = Num 800000, q_apiBaseUrl = None\<rparr>]
   \<and> o2RequestRaw (exampleEnv exampleBars)
        \<lparr>market_id = ''market'', q_resolution = R5m, count_back = Num 101, q_from = Num 0,
         q_to = Num 800000, q_apiBaseUrl = None\<rparr>
       = Resp True 200 ''OK'' (DataBars exampleBars)
   \<and> exampleBars \<noteq> []
   \<and> includeIncompleteLastBar ((exampleRequest [''vwap''])\<lparr>mode := Some Window\<rparr>) \<noteq> Some True
   \<and> \<bar>now_trim (exampleEnv exampleBars)\<bar> \<le> 8640000000000000
   \<and> now_trim (exampleEnv exampleBars) - bar_timestamp (last exampleBars) = 200000
   \<and> lastBarIncomplete R5m (now_trim (exampleEnv exampleBars)) exampleBars
   \<and> (case fst (o2_indicators (exampleEnv exampleBars)
                  ((exampleRequest [''vwap''])\<lparr>mode := Some Window\<rparr>)) of
         WindowData out \<Rightarrow>
           timestamps out = [0, 300000]
           \<and> filter (\<lambda>w. code w = ''INCOMPLETE_LAST_BAR'') (w_warnings out)
               = [\<lparr>code = ''INCOMPLETE_LAST_BAR'', details = [(''timestamp'', Num 600000)]\<rparr>]
       | _ \<Rightarrow> False)"
proof -
  let ?env = "exampleEnv exampleBars"
  let ?req = "(exampleRequest [''vwap''])\<lparr>mode := Some Window\<rparr>"
  let ?q = "\<lparr>market_id = ''market'', q_resolution = R5m, count_back = Num 101, q_from = Num 0,
             q_to = Num 800000, q_apiBaseUrl = None\<rparr>"
  have lk: "getIndicatorLookback ''vwap'' = Num 1"
    by (simp add: getIndicatorLookback_def string_defs)
  have p1: "snd (o2_indicators ?env ?req) = [?q]"
    by (simp add: o2_indicators_def exampleRequest_def normalizeIndicatorName_def string_defs
          aliases_def inheritedKeys_def lk resolveWindow_def toNum_def Let_def num_simps)
  have p2: "o2RequestRaw ?env ?q = Resp True 200 ''OK'' (DataBars exampleBars)"
    by (simp add: exampleEnv_def)
  have p3: "exampleBars \<noteq> []"
    by (simp add: exampleBars_def)
  have p4: "includeIncompleteLastBar ?req \<noteq> Some True"
    by (simp add: exampleRequest_def)
  have p5: "\<bar>now_trim ?env\<bar> \<le> 8640000000000000"
    by (simp add: exampleEnv_def)
  have res: "resolution ?req = R5m" and now: "now_trim ?env = 800000"
    and ws: "windowSize ?req = None"
    by (simp_all add: exampleRequest_def exampleEnv_def)
  have lst: "bar_timestamp (last exampleBars) = 600000"
    by (simp add: exampleBars_def flatBar_def)
  have dur: "resolutionMs R5m = Num (of_int 300000)"
    by (simp add: resolutionMs_def)
  note main = trailing_bar_trimmed_iff_incomplete [OF p1 p2 p3 p4 p5, unfolded res now ws lst]
  from main dur have inc: "lastBarIncomplete R5m 800000 exampleBars"
    by (simp del: of_int_numeral)
  with main have rem: "remainingBars R5m 800000 exampleBars = butlast exampleBars"
    by simp
  have w: "incompleteWarning exampleBars
           = \<lparr>code = ''INCOMPLETE_LAST_BAR'', details = [(''timestamp'', Num 600000)]\<rparr>"
    by (simp add: incompleteWarning_def lst num_simps)
  have sl: "slice_from (Num (- 100)) (map bar_timestamp (butlast exampleBars)) = [0, 300000]"
    by (simp add: slice_from_def truncate_def exampleBars_def flatBar_def Let_def)
  from example_window_succeeds obtain out where
    out: "fst (o2_indicators ?env ?req) = WindowData out"
    by blast
  from main have "timestamps out = [0, 300000]
      \<and> filter (\<lambda>w. code w = ''INCOMPLETE_LAST_BAR'') (w_warnings out)
          = [\<lparr>code = ''INCOMPLETE_LAST_BAR'', details = [(''timestamp'', Num 600000)]\<rparr>]"
    unfolding out rem by (simp add: inc w sl)
  with p1 p2 p3 p4 p5 inc show ?thesis
    by (simp add: out now lst)
qed
section \<open>VWAP\<close>

lemma vwapStep_typicalPrice:
  "vwapStep bars (pv, v, vs) i
   = (jadd pv (jmul (typicalPrice bars i) (num_at (volume bars) i)),
      jadd v (num_at (volume bars) i),
      vs @ [if jgt (jadd v (num_at (volume bars) i)) (Num 0)
            then jdiv (jadd pv (jmul (typicalPrice bars i) (num_at (volume bars) i)))
                      (jadd v (num_at (volume bars) i))
            else typicalPrice bars i])"
  by (simp add: vwapStep_def typicalPrice_def Let_def)

lemma sumPV_Suc:
  "sumPV bars (Suc k) = jadd (sumPV bars k) (jmul (typicalPrice bars k) (num_at (volume bars) k))"
  by (simp add: sumPV_def)

lemma sumVolume_Suc: "sumVolume bars (Suc k) = jadd (sumVolume bars k) (num_at (volume bars) k)"
  by (simp add: sumVolume_def)

text \<open>The state of the loop after \<open>k\<close> bars: the two cumulative sums and the values pushed.\<close>

lemma vwapLoop_prefix:
  "foldl (vwapStep bars) (Num 0, Num 0, []) [0..<k]
   = (sumPV bars k, sumVolume bars k,
      map (\<lambda>j. if jgt (sumVolume bars (Suc j)) (Num 0)
                then jdiv (sumPV bars (Suc j)) (sumVolume bars (Suc j))
                else typicalPrice bars j) [0..<k])"
proof (induction k)
  case 0
  show ?case by (simp add: sumPV_def sumVolume_def)
next
  case (Suc k)
  have "foldl (vwapStep bars) (Num 0, Num 0, []) [0..<Suc k]
          = vwapStep bars (foldl (vwapStep bars) (Num 0, Num 0, []) [0..<k]) k"
    by simp
  also have "\<dots> = vwapStep bars
       (sumPV bars k, sumVolume bars k,
        map (\<lambda>j. if jgt (sumVolume bars (Suc j)) (Num 0)
                  then jdiv (sumPV bars (Suc j)) (sumVolume bars (Suc j))
                  else typicalPrice bars j) [0..<k]) k"
    by (simp only: Suc.IH)
  also have "\<dots> = (sumPV bars (Suc k), sumVolume bars (Suc k),
        map (\<lambda>j. if jgt (sumVolume bars (Suc j)) (Num 0)
                  then jdiv (sumPV bars (Suc j)) (sumVolume bars (Suc j))
                  else typicalPrice bars j) [0..<Suc k])"
    by (simp only: vwapStep_typicalPrice sumPV_Suc sumVolume_Suc upt_Suc_append [OF le0]
          map_append list.map)
  finally show ?case .
qed

lemma vwap_result:
  assumes "close bars \<noteq> []"
  shows "calculateIndicator lib ''vwap'' bars ps
         = Some (scalarResult
                   (map (\<lambda>j. if jgt (sumVolume bars (Suc j)) (Num 0)
                             then jdiv (sumPV bars (Suc j)) (sumVolume bars (Suc j))
                             else typicalPrice bars j) [0..<length (close bars)])
                   None
                   \<lparr>requiredBars = Num 1, providedBars = barCount bars, warmupBars = Num 0,
                    params = [(''anchor'', String ''window'')]\<rparr>)"
proof -
  have g: "\<not> jlt (barCount bars) (Num 1)"
    using assms by (cases "close bars") (simp_all add: barCount_def lengthOf_def jlt_def)
  show ?thesis
    by (simp add: calculateIndicator_def calculateIndicator_try_def string_defs calc_vwap_def g
          vwapLoop_def vwapLoop_prefix del: upt_Suc)
qed

lemma resolveWindow_anchor:
  "resolveWindow now (req\<lparr>vwapAnchor := anchor\<rparr>) = resolveWindow now req"
  by (simp add: resolveWindow_def cong: option.case_cong prod.case_cong)

lemma afterTrim_anchor:
  "afterTrim env (req\<lparr>vwapAnchor := anchor\<rparr>) names mx f t w bars
   = afterTrim env req names mx f t w bars"
  by (simp add: afterTrim_def Let_def
        cong: option.case_cong prod.case_cong sum.case_cong if_cong)

lemma processBars_anchor:
  "processBars env (req\<lparr>vwapAnchor := anchor\<rparr>) names mx f t w0 fetched
   = processBars env req names mx f t w0 fetched"
  by (simp add: processBars_def afterTrim_anchor Let_def
        cong: option.case_cong prod.case_cong sum.case_cong if_cong)

lemma vwapAnchor_unused:
  "o2_indicators env (req\<lparr>vwapAnchor := anchor\<rparr>) = o2_indicators env req"
  by (simp add: o2_indicators_def resolveWindow_anchor processBars_anchor Let_def
        cong: sum.case_cong prod.case_cong Response.case_cong Data.case_cong if_cong)

text \<open>
  The sums are those of doubles: for one bar at price 1.5 with volume 0.1 the product
  \<open>1.5 * 0.1\<close> rounds up, and the quotient by the volume is the double above 1.5, not the
  typical price 1.5.
\<close>

lemma vwap_single_bar_rounds:
  "typicalPrice tenthVolumeSeries 0 = Num (3 / 2)
   \<and> map_option val (calculateIndicator lib ''vwap'' tenthVolumeSeries ps)
       = Some (Number (Num (3 / 2 + 1 / 2 ^ 52)))"
proof -
  have tp: "typicalPrice tenthVolumeSeries 0 = Num (3 / 2)"
    by (simp add: typicalPrice_def tenthVolumeSeries_def num_at_def elemAt_def jadd_def jdiv_def
          round_defs)
  have v: "num_at (volume tenthVolumeSeries) 0 = Num (3602879701896397 / 2 ^ 55)"
    by (simp add: tenthVolumeSeries_def num_at_def elemAt_def)
  have sv: "sumVolume tenthVolumeSeries (Suc 0) = Num (3602879701896397 / 2 ^ 55)"
    by (simp add: sumVolume_def v jadd_def round_defs)
  have pv: "sumPV tenthVolumeSeries (Suc 0) = Num (5404319552844596 / 2 ^ 55)"
    by (simp add: sumPV_def v tp jadd_def jmul_def round_defs)
  have q: "jdiv (sumPV tenthVolumeSeries (Suc 0)) (sumVolume tenthVolumeSeries (Suc 0))
           = Num (3 / 2 + 1 / 2 ^ 52)"
    unfolding pv sv by (simp add: jdiv_def round_defs)
  have gt: "jgt (sumVolume tenthVolumeSeries (Suc 0)) (Num 0)"
    unfolding sv by (simp add: jgt_def jlt_def)
  have c: "close tenthVolumeSeries \<noteq> []" "length (close tenthVolumeSeries) = 1"
    by (simp_all add: tenthVolumeSeries_def)
  have "map_option val (calculateIndicator lib ''vwap'' tenthVolumeSeries ps)
       = Some (Number (Num (3 / 2 + 1 / 2 ^ 52)))"
    by (simp add: vwap_result [OF c(1)] c(2) scalarResult_def lastv_def elemAt_def gt q)
  with tp show ?thesis by simp
qed

text \<open>
  C6 as the specification states it fails: for one bar at price 3 with volume 0 the cumulative
  volume is 0, the quotient of the two cumulative sums is \<open>0 / 0\<close>, which is \<open>NaN\<close>, and
  the function returns the typical price 3.
\<close>

theorem vwap_without_volume_is_typical_price:
  "volume zeroVolumeSeries = [Num 0]
   \<and> jdiv (sumPV zeroVolumeSeries 1) (sumVolume zeroVolumeSeries 1) = NaN
   \<and> map_option val (calculateIndicator failingTalib ''vwap'' zeroVolumeSeries None)
       = Some (Number (Num 3))
   \<and> map_option val (calculateIndicator failingTalib ''vwap'' zeroVolumeSeries None)
       \<noteq> Some (Number (jdiv (sumPV zeroVolumeSeries 1) (sumVolume zeroVolumeSeries 1)))"
  by (simp add: calculateIndicator_def calculateIndicator_try_def string_defs calc_vwap_def
        barCount_def vwapLoop_def vwapStep_def num_at_def elemAt_def upt_rec Let_def
        zeroVolumeSeries_def scalarResult_def lastv_def sumPV_def sumVolume_def typicalPrice_def
        num_simps)

text \<open>
  C6, amended. For every series with at least one close, whatever its numbers, the value of
  \<open>vwap\<close> is computed in doubles from the start of the series: the cumulative sum of typical
  price times volume divided by the cumulative volume when the cumulative volume is above 0,
  and the typical price of the last bar otherwise; the typical price is
  \<open>(high + low + close) / 3\<close>, and the result carries no error. For a single bar with a
  cumulative volume that is not above 0 it is that bar's typical price. The \<open>vwapAnchor\<close>
  option changes nothing in the response.
\<close>

theorem vwap_is_window_cumulative:
  assumes "close bars \<noteq> []"
  shows "map_option val (calculateIndicator lib ''vwap'' bars ps)
           = Some (Number
               (if jgt (sumVolume bars (length (close bars))) (Num 0)
                then jdiv (sumPV bars (length (close bars))) (sumVolume bars (length (close bars)))
                else typicalPrice bars (length (close bars) - 1)))
         \<and> map_option error (calculateIndicator lib ''vwap'' bars ps) = Some None
         \<and> (length (close bars) = 1 \<and> \<not> jgt (sumVolume bars 1) (Num 0) \<longrightarrow>
              map_option val (calculateIndicator lib ''vwap'' bars ps)
                = Some (Number (typicalPrice bars 0)))
         \<and> o2_indicators env (req\<lparr>vwapAnchor := anchor\<rparr>) = o2_indicators env req"
proof -
  obtain n where n: "length (close bars) = Suc n"
    using assms by (cases "close bars") auto
  have v: "map_option val (calculateIndicator lib ''vwap'' bars ps)
           = Some (Number
               (if jgt (sumVolume bars (length (close bars))) (Num 0)
                then jdiv (sumPV bars (length (close bars))) (sumVolume bars (length (close bars)))
                else typicalPrice bars (length (close bars) - 1)))"
    by (simp add: vwap_result [OF assms] n scalarResult_def lastv_def elemAt_def nth_append
          del: upt_Suc)
  have e: "map_option error (calculateIndicator lib ''vwap'' bars ps) = Some None"
    by (simp add: vwap_result [OF assms] scalarResult_def)
  have "length (close bars) = 1 \<and> \<not> jgt (sumVolume bars 1) (Num 0) \<longrightarrow>
          map_option val (calculateIndicator lib ''vwap'' bars ps)
            = Some (Number (typicalPrice bars 0))"
    using v by auto
  with v e vwapAnchor_unused show ?thesis
    by blast
qed

theorem vwap_is_window_cumulative_witness:
  "close exampleSeries \<noteq> []
   \<and> sumPV exampleSeries 2 = Num 9 \<and> sumVolume exampleSeries 2 = Num 2
   \<and> map_option val (calculateIndicator failingTalib ''vwap'' exampleSeries None)
       = Some (Number (Num (9 / 2)))
   \<and> close zeroVolumeSeries \<noteq> [] \<and> length (close zeroVolumeSeries) = 1
   \<and> \<not> jgt (sumVolume zeroVolumeSeries 1) (Num 0)
   \<and> map_option val (calculateIndicator failingTalib ''vwap'' zeroVolumeSeries None)
       = Some (Number (Num 3))"
proof -
  have c: "close exampleSeries \<noteq> []" "length (close exampleSeries) = 2"
    and z: "close zeroVolumeSeries \<noteq> []" "length (close zeroVolumeSeries) = 1"
    by (simp_all add: exampleSeries_def zeroVolumeSeries_def)
  have tp: "typicalPrice exampleSeries 0 = Num 3" "typicalPrice exampleSeries (Suc 0) = Num 6"
    "typicalPrice zeroVolumeSeries 0 = Num 3"
    by (simp_all add: typicalPrice_def exampleSeries_def zeroVolumeSeries_def num_at_def
          elemAt_def num_simps)
  have vol: "num_at (volume exampleSeries) 0 = Num 1" "num_at (volume exampleSeries) (Suc 0) = Num 1"
    "num_at (volume zeroVolumeSeries) 0 = Num 0"
    by (simp_all add: exampleSeries_def zeroVolumeSeries_def num_at_def elemAt_def)
  have s: "sumPV exampleSeries 2 = Num 9" "sumVolume exampleSeries 2 = Num 2"
    "sumVolume zeroVolumeSeries 1 = Num 0" "sumVolume zeroVolumeSeries (Suc 0) = Num 0"
    by (simp_all add: sumPV_def sumVolume_def upt_rec tp vol num_simps)
  have half: "jdiv (Num 9) (Num 2) = Num (9 / 2)"
    by (simp add: jdiv_def round_defs)
  show ?thesis
    using vwap_is_window_cumulative
            [OF c(1), where lib = failingTalib and ps = None and env = "exampleEnv []"
               and req = "exampleRequest []" and anchor = None]
      vwap_is_window_cumulative
            [OF z(1), where lib = failingTalib and ps = None and env = "exampleEnv []"
               and req = "exampleRequest []" and anchor = None]
    by (simp add: c z s tp half jgt_def jlt_def)
qed
section \<open>Insufficient bars\<close>

lemma calculateAll_lenient:
  "calculateAll lib False ps tb n inds acc
     = Inr (\<lambda>k. if k \<in> set inds then Some (storedResult lib ps tb n k) else acc k)"
proof (induction inds arbitrary: acc)
  case Nil
  show ?case by simp
next
  case (Cons i inds)
  show ?case
    by (auto simp: Cons.IH storedResult_def fun_eq_iff split: option.splits)
qed

lemma stored_null_when_failure_reported:
  "reportsFailure lib ps tb k \<Longrightarrow>
     f_value (formatIndicator (storedResult lib ps tb n k)) = Null
     \<and> windowValue (storedResult lib ps tb n k) = Null"
  by (auto simp: reportsFailure_def storedResult_def formatIndicator_def windowValue_def
        insufficientResult_def hasError_def split: option.splits)

lemma afterTrim_strict_insufficient:
  assumes "strict req = Some True" and "jlt (lengthOf bars) mx"
  shows "afterTrim env req names mx f t w bars = Failure (InsufficientBars mx (length bars)) None"
  using assms by (simp add: afterTrim_def sufficiency_def Let_def)

lemma afterTrim_lenient_succeeds:
  assumes "strict req \<noteq> Some True"
    and "transformBarsToArrays (decimal env) bars = Inr tb"
  shows "succeeded (afterTrim env req names mx f t w bars)"
  using assms(2)
  by (simp add: afterTrim_def default_flag [OF assms(1)] sufficiency_def Let_def
        calculateAll_lenient)

lemma afterTrim_lenient_insufficient:
  assumes "strict req \<noteq> Some True" and "jlt (lengthOf bars) mx"
    and "transformBarsToArrays (decimal env) bars = Inr tb"
  shows "case afterTrim env req names mx f t w bars of
           SnapshotData out \<Rightarrow>
             insufficientWarning mx (length bars) \<in> set (s_warnings out)
             \<and> (\<forall>k \<in> set names.
                  reportsFailure (talib env)
                    (case priceSource req of Some p \<Rightarrow> p | None \<Rightarrow> Close) tb k
                  \<longrightarrow> map_option f_value (s_indicators out k) = Some Null)
         | WindowData out \<Rightarrow>
             insufficientWarning mx (length bars) \<in> set (w_warnings out)
             \<and> (\<forall>k \<in> set names.
                  reportsFailure (talib env)
                    (case priceSource req of Some p \<Rightarrow> p | None \<Rightarrow> Close) tb k
                  \<longrightarrow> w_indicators out k = Some Null)
         | _ \<Rightarrow> False"
  using assms(2,3)
  by (simp add: afterTrim_def default_flag [OF assms(1)] sufficiency_def Let_def
        calculateAll_lenient stored_null_when_failure_reported)

text \<open>
  What the function does with too few bars. The request reaches the provider, which answers
  with bars, and after the trailing-bar step fewer than \<open>maxLookback\<close> bars remain. With
  \<open>strict\<close> true the response is the failure for insufficient bars, with both counts and
  without data. With \<open>strict\<close> false, and provided the remaining bars decode, the request
  succeeds in either mode, the \<open>INSUFFICIENT_BARS\<close> warning with both counts is among the
  warnings, and every requested indicator for which the calculator returns \<open>null\<close> or a
  result with an error has the value \<open>null\<close> in the output. Nothing is said of an indicator
  for which the calculator returns a result without error.
\<close>

lemma insufficient_bars_policy:
  assumes "snd (o2_indicators env req) = [q]"
    and "o2RequestRaw env q = Resp True status statusText (DataBars fetched)"
    and "fetched \<noteq> []"
    and "dropIncompleteLastBar
           (case includeIncompleteLastBar req of Some b \<Rightarrow> b | None \<Rightarrow> False)
           (resolution req) (now_trim env) fetched = (bars, w1)"
    and "lookbacks (map normalizeIndicatorName (indicators req)) = Inr ls"
    and "jlt (lengthOf bars) (mathMax ls)"
  shows "(strict req = Some True \<longrightarrow>
            fst (o2_indicators env req) = Failure (InsufficientBars (mathMax ls) (length bars)) None)
       \<and> (strict req \<noteq> Some True \<longrightarrow> transformBarsToArrays (decimal env) bars = Inr tb \<longrightarrow>
            (case fst (o2_indicators env req) of
               SnapshotData out \<Rightarrow>
                 insufficientWarning (mathMax ls) (length bars) \<in> set (s_warnings out)
                 \<and> (\<forall>k \<in> set (strings (map normalizeIndicatorName (indicators req))).
                      reportsFailure (talib env)
                        (case priceSource req of Some p \<Rightarrow> p | None \<Rightarrow> Close) tb k
                      \<longrightarrow> map_option f_value (s_indicators out k) = Some Null)
             | WindowData out \<Rightarrow>
                 insufficientWarning (mathMax ls) (length bars) \<in> set (w_warnings out)
                 \<and> (\<forall>k \<in> set (strings (map normalizeIndicatorName (indicators req))).
                      reportsFailure (talib env)
                        (case priceSource req of Some p \<Rightarrow> p | None \<Rightarrow> Close) tb k
                      \<longrightarrow> w_indicators out k = Some Null)
             | _ \<Rightarrow> False))"
proof -
  from o2_indicators_on_bars [OF assms(1-3)] assms(5) have
    top: "fst (o2_indicators env req)
          = processBars env req (strings (map normalizeIndicatorName (indicators req)))
              (mathMax ls) (fst (resolveWindow (now_period env) req))
              (fst (snd (resolveWindow (now_period env) req)))
              (snd (snd (resolveWindow (now_period env) req))) fetched"
    by auto
  have pb: "processBars env req names mx f t w0 fetched
            = afterTrim env req names mx f t (w0 @ w1) bars" for names mx f t w0
    by (simp add: processBars_def assms(4))
  have "strict req = Some True \<Longrightarrow>
          fst (o2_indicators env req) = Failure (InsufficientBars (mathMax ls) (length bars)) None"
    using afterTrim_strict_insufficient [OF _ assms(6)] by (simp add: top pb)
  moreover have "strict req \<noteq> Some True \<Longrightarrow> transformBarsToArrays (decimal env) bars = Inr tb
       \<Longrightarrow> ?thesis"
    using afterTrim_lenient_insufficient [OF _ assms(6)] by (simp add: top pb)
  ultimately show ?thesis by blast
qed

text \<open>
  A library output without values gives a result whose value is \<open>undefined\<close> and that
  carries no error.
\<close>

lemma empty_output_is_undefined:
  "val (scalarResult [] lv m) = Undefined \<and> error (scalarResult [] lv m) = None
   \<and> \<not> hasError (scalarResult [] lv m)
   \<and> f_value (formatIndicator (scalarResult [] lv m)) = Undefined
   \<and> windowValue (scalarResult [] lv m) = Undefined"
  by (simp add: scalarResult_def lastv_def elemAt_def hasError_def formatIndicator_def
        windowValue_def)

lemma fourteen_decoded:
  "transformBarsToArrays exampleDecimal
     (map (\<lambda>i. flatBar ''3000000000'' ''1000000000'' (g i)) xs)
   = Inr \<lparr>open_a = replicate (length xs) (Num 3), high = replicate (length xs) (Num 3),
          low = replicate (length xs) (Num 3), close = replicate (length xs) (Num 3),
          volume = replicate (length xs) (Num 1), timestamp = map g xs\<rparr>"
proof (induction xs)
  case Nil
  show ?case by simp
next
  case (Cons x xs)
  have p: "pushBar exampleDecimal (flatBar ''3000000000'' ''1000000000'' ts)
           = Inr (Num 3, Num 3, Num 3, Num 3, Num 1, ts)" for ts
    by (simp add: flatBar_def decoder_defs showNat.simps num_simps)
  show ?case
    by (simp add: Cons.IH p)
qed

text \<open>
  C3. The specification: with fewer remaining bars than \<open>maxLookback\<close> and \<open>strict\<close> false,
  the request succeeds with the \<open>INSUFFICIENT_BARS\<close> warning and indicators that cannot be
  computed are reported with value \<open>null\<close>. For \<open>rsi_14\<close> and \<open>atr_14\<close> on fourteen bars
  \<open>maxLookback\<close> is 15 and the warning is attached; \<open>rsi_14\<close> is reported with value
  \<open>null\<close> and the error \<open>INSUFFICIENT_BARS\<close>; \<open>atr_14\<close> passes the calculator's test
  \<open>length < period\<close>, the library is called on a series one bar too short and has no output
  value, and the indicator is reported with the value \<open>undefined\<close> and no error.
\<close>

theorem insufficient_atr_reported_undefined:
  "(case fst (o2_indicators shortSeriesEnv (exampleRequest [''rsi_14'', ''atr_14''])) of
      SnapshotData out \<Rightarrow>
        s_bars out = 14
        \<and> s_warnings out = [insufficientWarning (Num 15) 14]
        \<and> map_option f_value (s_indicators out ''rsi_14'') = Some Null
        \<and> map_option f_error (s_indicators out ''rsi_14'') = Some (Some ''INSUFFICIENT_BARS'')
        \<and> map_option f_value (s_indicators out ''atr_14'') = Some Undefined
        \<and> map_option f_error (s_indicators out ''atr_14'') = Some None
    | _ \<Rightarrow> False)"
proof -
  have lk: "getIndicatorLookback ''rsi_14'' = Num 15" "getIndicatorLookback ''atr_14'' = Num 14"
    by (simp_all add: getIndicatorLookback_def string_defs parseInt_defs num_simps)
  have nm: "normalizeIndicatorName ''rsi_14'' = Name ''rsi_14''"
    "normalizeIndicatorName ''atr_14'' = Name ''atr_14''"
    by (simp_all add: normalizeIndicatorName_def string_defs aliases_def inheritedKeys_def)
  have len: "length fourteenBars = 14" "fourteenBars \<noteq> []"
    by (simp_all add: fourteenBars_def)
  have lst: "bar_timestamp (last fourteenBars) = 3900000"
    by (simp add: fourteenBars_def last_map flatBar_def)
  have complete: "\<not> lastBarIncomplete R5m 5000000 fourteenBars"
    by (simp add: lastBarIncomplete_def lst resolutionMs_def num_simps)
  have trim: "dropIncompleteLastBar False R5m 5000000 fourteenBars = (fourteenBars, [])"
    using dropIncompleteLastBar_eq [OF len(2), of 5000000 R5m] complete
    by (simp add: remainingBars_def)
  have dec: "transformBarsToArrays exampleDecimal fourteenBars = Inr (flatSeries 14)"
    unfolding fourteenBars_def fourteen_decoded by (simp add: flatSeries_def)
  have p: "periodOr ''rsi_14'' (Num 14) = Num 14" "periodOr ''atr_14'' (Num 14) = Num 14"
    by (simp_all add: parseInt_defs string_defs num_simps)
  have rsi: "calculateIndicator lib ''rsi_14'' (flatSeries 14) ps = None" for lib ps
    by (simp add: calculateIndicator_def calculateIndicator_try_def string_defs calc_rsi_def p
          barCount_def flatSeries_def Let_def num_simps)
  have atr: "calculateIndicator emptyOutputTalib ''atr_14'' (flatSeries 14) ps
             = Some (scalarResult [] None
                       \<lparr>requiredBars = Num 14, providedBars = Num 14, warmupBars = Num 13,
                        params = [(''period'', Number (Num 14))]\<rparr>)" for ps
    by (simp add: calculateIndicator_def calculateIndicator_try_def string_defs calc_atr_def p
          barCount_def flatSeries_def scalarCall_def emptyOutputTalib_def outArray_def Let_def
          num_simps)
  show ?thesis
    by (simp add: o2_indicators_def shortSeriesEnv_def exampleRequest_def nm lk
          resolveWindow_def toNum_def processBars_def trim afterTrim_def sufficiency_def
          len dec rsi atr strings_def empty_output_is_undefined insufficientResult_def
          formatIndicator_def hasError_def Let_def num_simps)
qed
section \<open>Failures inside the calculator\<close>



















section \<open>Window mode\<close>

text \<open>
  Without \<open>strict\<close>, on bars that decode, every entry of the window response is what the
  loop stored under the key, reduced to its \<open>value\<close> or to \<open>null\<close>.
\<close>

lemma window_entries:
  assumes "strict req \<noteq> Some True" and "mode req = Some Window"
    and "transformBarsToArrays (decimal env) bars = Inr tb"
  shows "case afterTrim env req names mx f t w bars of
           WindowData out \<Rightarrow>
             timestamps out
               = slice_from (jneg (case windowSize req of Some ws \<Rightarrow> ws | None \<Rightarrow> Num 100))
                   (timestamp tb)
             \<and> w_indicators out
                 = (\<lambda>k. if k \<in> set names
                        then Some (windowValue
                               (storedResult (talib env)
                                  (case priceSource req of Some p \<Rightarrow> p | None \<Rightarrow> Close)
                                  tb (length bars) k))
                        else None)
         | _ \<Rightarrow> False"
  using assms(2,3)
  by (simp add: afterTrim_def default_flag [OF assms(1)] sufficiency_def Let_def
        calculateAll_lenient fun_eq_iff)

text \<open>
  The value of a result is the last element of the output, so that is what a window entry
  holds, for every single-output indicator.
\<close>

lemma window_value_is_last_output:
  "windowValue (scalarResult values lv m) = lastv values"
  by (simp add: windowValue_def scalarResult_def hasError_def)

text \<open>
  C1. The specification: in window mode each requested indicator maps to an array of per-bar values
  aligned with \<open>timestamps\<close>, never to a single latest value. For the three example bars
  (the last one dropped as incomplete) and the indicator \<open>vwap\<close>, the window response has the
  two timestamps 0 and 300000, and \<open>indicators.vwap\<close> is the single number 4.5, the latest
  value: the window branch copies \<open>result.value\<close>, which every branch of the calculator sets
  to the last element of its output.
\<close>

theorem window_mode_returns_latest_value:
  "(case fst (o2_indicators (exampleEnv exampleBars)
               ((exampleRequest [''vwap''])\<lparr>mode := Some Window\<rparr>)) of
      WindowData out \<Rightarrow>
        timestamps out = [0, 300000] \<and> w_indicators out ''vwap'' = Some (Number (Num (9 / 2)))
    | _ \<Rightarrow> False)"
  using example_window_response by (auto split: ToolResponse.splits)
end
